theory Spec2Isabelle
  imports Main "HOL-Library.Word"
begin

section \<open>Values, errors and the environment\<close>

text \<open>
  The repository declares its schemas as pydantic models (models/owner.py, models/pet.py).
  A model class is embedded as a record, its constructor (the validation of a dictionary
  of field values against the declared fields) as a function from a payload to either a
  list of validation errors or the record.

  A UUID is a 128-bit value. A date and a naive datetime carry their components as the
  Python classes do.
\<close>

type_synonym uuid = "128 word"

datatype date = Date nat nat nat

datatype datetime = Datetime nat nat nat nat nat nat nat

text \<open>
  The values a payload can hold: the JSON values, and the instances of UUID, date and
  datetime that a Python caller (or a dumped model) hands over.
\<close>

datatype pyval =
    PNone
  | PBool bool
  | PInt int
  | PStr string
  | PList "pyval list"
  | PDict "(string \<times> pyval) list"
  | PUuid uuid
  | PDate date
  | PDatetime datetime

type_synonym payload = "(string \<times> pyval) list"

text \<open>
  A ValidationError is a non-empty list of errors, each with the location of the
  offending value and its kind.
\<close>

datatype loc_item = Key string | Idx nat

datatype err_kind =
    Missing
  | StringType
  | StringTooShort
  | EmailError
  | UuidError
  | DateError
  | DatetimeError
  | ListType
  | ModelType

datatype verr = VErr (loc: "loc_item list") (kind: err_kind)

type_synonym 'a result = "verr list + 'a"

text \<open>
  What the schemas take from their libraries and do not define themselves: the syntax
  check and normalisation of an email address that contains an at-sign, the lax
  conversions of a value that is not already an instance of the target type (a string
  holding a UUID or an ISO date, a number holding a timestamp), and the text that a UUID,
  a date and a datetime are written as when a model is dumped for JSON.
\<close>

record lib =
  email_normalize :: "string \<Rightarrow> string option"
  uuid_lax :: "pyval \<Rightarrow> uuid option"
  date_lax :: "pyval \<Rightarrow> date option"
  datetime_lax :: "pyval \<Rightarrow> datetime option"
  uuid_str :: "uuid \<Rightarrow> string"
  date_str :: "date \<Rightarrow> string"
  datetime_str :: "datetime \<Rightarrow> string"

text \<open>
  The sources of generated values: \<open>uuid4\<close> and \<open>datetime.utcnow\<close>. Each call
  returns the next value of its source and advances the count of calls.
\<close>

record env =
  uuid_src :: "nat \<Rightarrow> uuid"
  uuid_calls :: nat
  clock :: "nat \<Rightarrow> datetime"
  clock_calls :: nat

definition uuid4 :: "env \<Rightarrow> uuid \<times> env" where
  "uuid4 e = (uuid_src e (uuid_calls e), e\<lparr>uuid_calls := Suc (uuid_calls e)\<rparr>)"

definition utcnow :: "env \<Rightarrow> datetime \<times> env" where
  "utcnow e = (clock e (clock_calls e), e\<lparr>clock_calls := Suc (clock_calls e)\<rparr>)"

section \<open>Field validation\<close>

text \<open>Errors of all fields are collected; a record is built only when there is none.\<close>

definition ap :: "('a \<Rightarrow> 'b) result \<Rightarrow> 'a result \<Rightarrow> 'b result" where
  "ap rf rx =
     (case rf of
        Inl es \<Rightarrow> (case rx of Inl es' \<Rightarrow> Inl (es @ es') | Inr _ \<Rightarrow> Inl es)
      | Inr f \<Rightarrow> (case rx of Inl es' \<Rightarrow> Inl es' | Inr x \<Rightarrow> Inr (f x)))"

definition at_loc :: "loc_item \<Rightarrow> 'a result \<Rightarrow> 'a result" where
  "at_loc i r =
     (case r of Inl es \<Rightarrow> Inl (map (\<lambda>v. VErr (i # loc v) (kind v)) es) | Inr x \<Rightarrow> Inr x)"

text \<open>\<open>str\<close>: a string and nothing else.\<close>

fun str_validator :: "pyval \<Rightarrow> string result" where
  "str_validator (PStr s) = Inr s"
| "str_validator _ = Inl [VErr [] StringType]"

text \<open>\<open>Optional[T]\<close>: None, or a value of T.\<close>

fun optional :: "(pyval \<Rightarrow> 'a result) \<Rightarrow> pyval \<Rightarrow> 'a option result" where
  "optional v PNone = Inr None"
| "optional v x = (case v x of Inl es \<Rightarrow> Inl es | Inr y \<Rightarrow> Inr (Some y))"

text \<open>
  \<open>EmailStr\<close>: a string that the email validator accepts; the field holds the normalised
  address. The validator rejects a string without an at-sign before anything else.
\<close>

definition validate_email :: "lib \<Rightarrow> string \<Rightarrow> string option" where
  "validate_email L s = (if CHR ''@'' \<in> set s then email_normalize L s else None)"

fun email_validator :: "lib \<Rightarrow> pyval \<Rightarrow> string result" where
  "email_validator L (PStr s) =
     (case validate_email L s of None \<Rightarrow> Inl [VErr [] EmailError] | Some s' \<Rightarrow> Inr s')"
| "email_validator L _ = Inl [VErr [] StringType]"

text \<open>\<open>UUID\<close>, \<open>date\<close>, \<open>datetime\<close>: an instance is taken as it is.\<close>

fun uuid_validator :: "lib \<Rightarrow> pyval \<Rightarrow> uuid result" where
  "uuid_validator L (PUuid u) = Inr u"
| "uuid_validator L x =
     (case uuid_lax L x of None \<Rightarrow> Inl [VErr [] UuidError] | Some u \<Rightarrow> Inr u)"

fun date_validator :: "lib \<Rightarrow> pyval \<Rightarrow> date result" where
  "date_validator L (PDate d) = Inr d"
| "date_validator L x =
     (case date_lax L x of None \<Rightarrow> Inl [VErr [] DateError] | Some d \<Rightarrow> Inr d)"

fun datetime_validator :: "lib \<Rightarrow> pyval \<Rightarrow> datetime result" where
  "datetime_validator L (PDatetime d) = Inr d"
| "datetime_validator L x =
     (case datetime_lax L x of None \<Rightarrow> Inl [VErr [] DatetimeError] | Some d \<Rightarrow> Inr d)"

text \<open>
  A field declared with \<open>Field(...)\<close> is required; one declared with a default takes it
  when the key is absent; one declared with a \<open>default_factory\<close> calls the factory then.
  Keys that name no field are ignored.
\<close>

definition required :: "string \<Rightarrow> (pyval \<Rightarrow> 'a result) \<Rightarrow> payload \<Rightarrow> 'a result" where
  "required k v p =
     (case map_of p k of None \<Rightarrow> Inl [VErr [Key k] Missing] | Some x \<Rightarrow> at_loc (Key k) (v x))"

definition with_default :: "string \<Rightarrow> (pyval \<Rightarrow> 'a result) \<Rightarrow> 'a \<Rightarrow> payload \<Rightarrow> 'a result" where
  "with_default k v d p =
     (case map_of p k of None \<Rightarrow> Inr d | Some x \<Rightarrow> at_loc (Key k) (v x))"

definition with_factory ::
  "string \<Rightarrow> (pyval \<Rightarrow> env \<Rightarrow> 'a result \<times> env) \<Rightarrow> (env \<Rightarrow> 'a \<times> env) \<Rightarrow> payload \<Rightarrow> env
     \<Rightarrow> 'a result \<times> env" where
  "with_factory k v f p e =
     (case map_of p k of
        None \<Rightarrow> (let (x, e') = f e in (Inr x, e'))
      | Some x \<Rightarrow> (let (r, e') = v x e in (at_loc (Key k) r, e')))"

definition pure_validator :: "(pyval \<Rightarrow> 'a result) \<Rightarrow> pyval \<Rightarrow> env \<Rightarrow> 'a result \<times> env" where
  "pure_validator v x e = (v x, e)"

text \<open>\<open>List[T]\<close>: a list whose items are validated in order.\<close>

fun list_items ::
  "(pyval \<Rightarrow> env \<Rightarrow> 'a result \<times> env) \<Rightarrow> nat \<Rightarrow> pyval list \<Rightarrow> env \<Rightarrow> 'a list result \<times> env" where
  "list_items v i [] e = (Inr [], e)"
| "list_items v i (x # xs) e =
     (let (r, e1) = v x e;
          (rs, e2) = list_items v (Suc i) xs e1
      in (ap (ap (Inr (#)) (at_loc (Idx i) r)) rs, e2))"

fun list_validator ::
  "(pyval \<Rightarrow> env \<Rightarrow> 'a result \<times> env) \<Rightarrow> pyval \<Rightarrow> env \<Rightarrow> 'a list result \<times> env" where
  "list_validator v (PList xs) e = list_items v 0 xs e"
| "list_validator v _ e = (Inl [VErr [] ListType], e)"

text \<open>A field whose type is a model takes a dictionary of that model's fields.\<close>

fun model_validator ::
  "(payload \<Rightarrow> env \<Rightarrow> 'a result \<times> env) \<Rightarrow> pyval \<Rightarrow> env \<Rightarrow> 'a result \<times> env" where
  "model_validator f (PDict p) e = f p e"
| "model_validator f _ e = (Inl [VErr [] ModelType], e)"

fun optional_st ::
  "(pyval \<Rightarrow> env \<Rightarrow> 'a result \<times> env) \<Rightarrow> pyval \<Rightarrow> env \<Rightarrow> 'a option result \<times> env" where
  "optional_st v PNone e = (Inr None, e)"
| "optional_st v x e = (let (r, e') = v x e in (ap (Inr Some) r, e'))"

text \<open>
  \<open>model_dump\<close> turns a model into the dictionary of its fields. In Python mode a UUID,
  a date and a datetime stay the instances they are; in JSON mode they are written as
  text. A nested model is dumped in the same mode.
\<close>

datatype mode = Python | Json

definition dump_optional :: "('a \<Rightarrow> pyval) \<Rightarrow> 'a option \<Rightarrow> pyval" where
  "dump_optional d x = (case x of None \<Rightarrow> PNone | Some y \<Rightarrow> d y)"

definition dump_uuid :: "lib \<Rightarrow> mode \<Rightarrow> uuid \<Rightarrow> pyval" where
  "dump_uuid L m u = (case m of Python \<Rightarrow> PUuid u | Json \<Rightarrow> PStr (uuid_str L u))"

definition dump_date :: "lib \<Rightarrow> mode \<Rightarrow> date \<Rightarrow> pyval" where
  "dump_date L m d = (case m of Python \<Rightarrow> PDate d | Json \<Rightarrow> PStr (date_str L d))"

definition dump_datetime :: "lib \<Rightarrow> mode \<Rightarrow> datetime \<Rightarrow> pyval" where
  "dump_datetime L m t =
     (case m of Python \<Rightarrow> PDatetime t | Json \<Rightarrow> PStr (datetime_str L t))"

section \<open>Address\<close>

text \<open>
  Modelled from the spec: AddressBase. The module models/address.py that owner.py imports
  it from is not among the sources. Sections 3 and 4.1 of the specification give its
  attributes: street, city, postal_code and country are required and are non-empty text,
  state is optional text, and id is an identifier that the server assigns when the client
  does not echo one. Validation fails when a required field is absent, of the wrong type
  or empty. The order of the fields is the one of the examples in owner.py.
\<close>

fun nonempty_str_validator :: "pyval \<Rightarrow> string result" where
  "nonempty_str_validator (PStr s) =
     (if s = [] then Inl [VErr [] StringTooShort] else Inr s)"
| "nonempty_str_validator _ = Inl [VErr [] StringType]"

record AddressBase =
  address_id :: uuid
  street :: string
  city :: string
  state :: "string option"
  postal_code :: string
  country :: string

definition make_AddressBase ::
  "uuid \<Rightarrow> string \<Rightarrow> string \<Rightarrow> string option \<Rightarrow> string \<Rightarrow> string \<Rightarrow> AddressBase" where
  "make_AddressBase i s c st pc co =
     \<lparr>address_id = i, street = s, city = c, state = st, postal_code = pc, country = co\<rparr>"

definition validate_AddressBase :: "lib \<Rightarrow> payload \<Rightarrow> env \<Rightarrow> AddressBase result \<times> env" where
  "validate_AddressBase L p e =
     (let (i, e1) = with_factory ''id'' (pure_validator (uuid_validator L)) uuid4 p e
      in (ap (ap (ap (ap (ap (ap (Inr make_AddressBase) i)
            (required ''street'' nonempty_str_validator p))
            (required ''city'' nonempty_str_validator p))
            (with_default ''state'' (optional str_validator) None p))
            (required ''postal_code'' nonempty_str_validator p))
            (required ''country'' nonempty_str_validator p), e1))"

definition model_dump_AddressBase :: "lib \<Rightarrow> mode \<Rightarrow> AddressBase \<Rightarrow> payload" where
  "model_dump_AddressBase L m a =
     [(''id'', dump_uuid L m (address_id a)),
      (''street'', PStr (street a)),
      (''city'', PStr (city a)),
      (''state'', dump_optional PStr (state a)),
      (''postal_code'', PStr (postal_code a)),
      (''country'', PStr (country a))]"

section \<open>Owner\<close>

text \<open>
  \<open>OwnerBase\<close> (owner.py:12): first_name, last_name and email are required, phone and
  government_id default to None, addresses defaults to a new empty list.
  \<open>OwnerCreate\<close> (owner.py:82) adds no field.
\<close>

record OwnerBase =
  first_name :: string
  last_name :: string
  email :: string
  phone :: "string option"
  government_id :: "string option"
  addresses :: "AddressBase list"

type_synonym OwnerCreate = OwnerBase

definition make_OwnerBase ::
  "string \<Rightarrow> string \<Rightarrow> string \<Rightarrow> string option \<Rightarrow> string option \<Rightarrow> AddressBase list \<Rightarrow> OwnerBase" where
  "make_OwnerBase f l m ph g a =
     \<lparr>first_name = f, last_name = l, email = m, phone = ph, government_id = g, addresses = a\<rparr>"

definition addresses_validator :: "lib \<Rightarrow> pyval \<Rightarrow> env \<Rightarrow> AddressBase list result \<times> env" where
  "addresses_validator L = list_validator (model_validator (validate_AddressBase L))"

definition new_list :: "env \<Rightarrow> 'a list \<times> env" where
  "new_list e = ([], e)"

definition validate_OwnerBase :: "lib \<Rightarrow> payload \<Rightarrow> env \<Rightarrow> OwnerBase result \<times> env" where
  "validate_OwnerBase L p e =
     (let (a, e1) = with_factory ''addresses'' (addresses_validator L) new_list p e
      in (ap (ap (ap (ap (ap (ap (Inr make_OwnerBase)
            (required ''first_name'' str_validator p))
            (required ''last_name'' str_validator p))
            (required ''email'' (email_validator L) p))
            (with_default ''phone'' (optional str_validator) None p))
            (with_default ''government_id'' (optional str_validator) None p))
            a, e1))"

definition validate_OwnerCreate :: "lib \<Rightarrow> payload \<Rightarrow> env \<Rightarrow> OwnerCreate result \<times> env" where
  "validate_OwnerCreate = validate_OwnerBase"

definition model_dump_OwnerBase :: "lib \<Rightarrow> mode \<Rightarrow> OwnerBase \<Rightarrow> payload" where
  "model_dump_OwnerBase L m b =
     [(''first_name'', PStr (first_name b)),
      (''last_name'', PStr (last_name b)),
      (''email'', PStr (email b)),
      (''phone'', dump_optional PStr (phone b)),
      (''government_id'', dump_optional PStr (government_id b)),
      (''addresses'', PList (map (\<lambda>a. PDict (model_dump_AddressBase L m a)) (addresses b)))]"

text \<open>
  \<open>OwnerUpdate\<close> (owner.py:100): every field is optional and defaults to None. The
  model keeps the set of the fields that the payload supplied (\<open>model_fields_set\<close>),
  which tells a field that was omitted from one that was supplied as None.
\<close>

record OwnerUpdate =
  ou_first_name :: "string option"
  ou_last_name :: "string option"
  ou_email :: "string option"
  ou_phone :: "string option"
  ou_government_id :: "string option"
  ou_addresses :: "AddressBase list option"
  ou_fields_set :: "string set"

definition fields_set :: "string list \<Rightarrow> payload \<Rightarrow> string set" where
  "fields_set names p = set (filter (\<lambda>k. k \<in> set (map fst p)) names)"

definition OwnerUpdate_fields :: "string list" where
  "OwnerUpdate_fields =
     [''first_name'', ''last_name'', ''email'', ''phone'', ''government_id'', ''addresses'']"

definition make_OwnerUpdate ::
  "string set \<Rightarrow> string option \<Rightarrow> string option \<Rightarrow> string option \<Rightarrow> string option
     \<Rightarrow> string option \<Rightarrow> AddressBase list option \<Rightarrow> OwnerUpdate" where
  "make_OwnerUpdate fs f l m ph g a =
     \<lparr>ou_first_name = f, ou_last_name = l, ou_email = m, ou_phone = ph,
      ou_government_id = g, ou_addresses = a, ou_fields_set = fs\<rparr>"

definition no_value :: "env \<Rightarrow> 'a option \<times> env" where
  "no_value e = (None, e)"

definition validate_OwnerUpdate :: "lib \<Rightarrow> payload \<Rightarrow> env \<Rightarrow> OwnerUpdate result \<times> env" where
  "validate_OwnerUpdate L p e =
     (let (a, e1) = with_factory ''addresses'' (optional_st (addresses_validator L)) no_value p e
      in (ap (ap (ap (ap (ap (ap (Inr (make_OwnerUpdate (fields_set OwnerUpdate_fields p)))
            (with_default ''first_name'' (optional str_validator) None p))
            (with_default ''last_name'' (optional str_validator) None p))
            (with_default ''email'' (optional (email_validator L)) None p))
            (with_default ''phone'' (optional str_validator) None p))
            (with_default ''government_id'' (optional str_validator) None p))
            a, e1))"

text \<open>
  \<open>OwnerRead\<close> (owner.py:146) extends \<open>OwnerBase\<close> with id, created_at and updated_at.
  Each has a default factory: \<open>uuid4\<close> for id, \<open>datetime.utcnow\<close> for each of the two
  timestamps. The fields are handled in the order of their declaration, the inherited
  ones first.
\<close>

record OwnerRead = OwnerBase +
  or_id :: uuid
  or_created_at :: datetime
  or_updated_at :: datetime

definition make_OwnerRead :: "OwnerBase \<Rightarrow> uuid \<Rightarrow> datetime \<Rightarrow> datetime \<Rightarrow> OwnerRead" where
  "make_OwnerRead b i c u =
     \<lparr>first_name = first_name b, last_name = last_name b, email = email b, phone = phone b,
      government_id = government_id b, addresses = addresses b,
      or_id = i, or_created_at = c, or_updated_at = u\<rparr>"

definition validate_OwnerRead :: "lib \<Rightarrow> payload \<Rightarrow> env \<Rightarrow> OwnerRead result \<times> env" where
  "validate_OwnerRead L p e =
     (let (b, e1) = validate_OwnerBase L p e;
          (i, e2) = with_factory ''id'' (pure_validator (uuid_validator L)) uuid4 p e1;
          (c, e3) = with_factory ''created_at'' (pure_validator (datetime_validator L)) utcnow p e2;
          (u, e4) = with_factory ''updated_at'' (pure_validator (datetime_validator L)) utcnow p e3
      in (ap (ap (ap (ap (Inr make_OwnerRead) b) i) c) u, e4))"

definition model_dump_OwnerRead :: "lib \<Rightarrow> mode \<Rightarrow> OwnerRead \<Rightarrow> payload" where
  "model_dump_OwnerRead L m r =
     [(''first_name'', PStr (first_name r)),
      (''last_name'', PStr (last_name r)),
      (''email'', PStr (email r)),
      (''phone'', dump_optional PStr (phone r)),
      (''government_id'', dump_optional PStr (government_id r)),
      (''addresses'', PList (map (\<lambda>a. PDict (model_dump_AddressBase L m a)) (addresses r))),
      (''id'', dump_uuid L m (or_id r)),
      (''created_at'', dump_datetime L m (or_created_at r)),
      (''updated_at'', dump_datetime L m (or_updated_at r))]"

section \<open>Pet\<close>

text \<open>
  \<open>PetBase\<close> (pet.py:12): name and species are required; breed, birth_date and color
  default to None. \<open>PetCreate\<close> (pet.py:54) adds the required owner_id.
\<close>

record PetBase =
  name :: string
  species :: string
  breed :: "string option"
  birth_date :: "date option"
  color :: "string option"

record PetCreate = PetBase +
  owner_id :: uuid

definition make_PetBase ::
  "string \<Rightarrow> string \<Rightarrow> string option \<Rightarrow> date option \<Rightarrow> string option \<Rightarrow> PetBase" where
  "make_PetBase n s b d c = \<lparr>name = n, species = s, breed = b, birth_date = d, color = c\<rparr>"

definition validate_PetBase :: "lib \<Rightarrow> payload \<Rightarrow> PetBase result" where
  "validate_PetBase L p =
     ap (ap (ap (ap (ap (Inr make_PetBase)
       (required ''name'' str_validator p))
       (required ''species'' str_validator p))
       (with_default ''breed'' (optional str_validator) None p))
       (with_default ''birth_date'' (optional (date_validator L)) None p))
       (with_default ''color'' (optional str_validator) None p)"

definition make_PetCreate :: "PetBase \<Rightarrow> uuid \<Rightarrow> PetCreate" where
  "make_PetCreate b oid =
     \<lparr>name = name b, species = species b, breed = breed b, birth_date = birth_date b,
      color = color b, owner_id = oid\<rparr>"

definition validate_PetCreate :: "lib \<Rightarrow> payload \<Rightarrow> env \<Rightarrow> PetCreate result \<times> env" where
  "validate_PetCreate L p e =
     (ap (ap (Inr make_PetCreate) (validate_PetBase L p))
         (required ''owner_id'' (uuid_validator L) p), e)"

definition model_dump_PetCreate :: "lib \<Rightarrow> mode \<Rightarrow> PetCreate \<Rightarrow> payload" where
  "model_dump_PetCreate L m c =
     [(''name'', PStr (name c)),
      (''species'', PStr (species c)),
      (''breed'', dump_optional PStr (breed c)),
      (''birth_date'', dump_optional (dump_date L m) (birth_date c)),
      (''color'', dump_optional PStr (color c)),
      (''owner_id'', dump_uuid L m (owner_id c))]"

text \<open>\<open>PetUpdate\<close> (pet.py:78): the five base fields, each optional; no owner_id.\<close>

record PetUpdate =
  pu_name :: "string option"
  pu_species :: "string option"
  pu_breed :: "string option"
  pu_birth_date :: "date option"
  pu_color :: "string option"
  pu_fields_set :: "string set"

definition PetUpdate_fields :: "string list" where
  "PetUpdate_fields = [''name'', ''species'', ''breed'', ''birth_date'', ''color'']"

definition make_PetUpdate ::
  "string set \<Rightarrow> string option \<Rightarrow> string option \<Rightarrow> string option \<Rightarrow> date option
     \<Rightarrow> string option \<Rightarrow> PetUpdate" where
  "make_PetUpdate fs n s b d c =
     \<lparr>pu_name = n, pu_species = s, pu_breed = b, pu_birth_date = d, pu_color = c,
      pu_fields_set = fs\<rparr>"

definition validate_PetUpdate :: "lib \<Rightarrow> payload \<Rightarrow> env \<Rightarrow> PetUpdate result \<times> env" where
  "validate_PetUpdate L p e =
     (ap (ap (ap (ap (ap (Inr (make_PetUpdate (fields_set PetUpdate_fields p)))
       (with_default ''name'' (optional str_validator) None p))
       (with_default ''species'' (optional str_validator) None p))
       (with_default ''breed'' (optional str_validator) None p))
       (with_default ''birth_date'' (optional (date_validator L)) None p))
       (with_default ''color'' (optional str_validator) None p), e)"

text \<open>
  \<open>PetRead\<close> (pet.py:96) extends \<open>PetBase\<close> with id (factory \<open>uuid4\<close>), owner (an
  \<open>OwnerRead\<close> or None, None by default), created_at and updated_at (factory
  \<open>datetime.utcnow\<close> each), declared in this order.
\<close>

record PetRead = PetBase +
  pr_id :: uuid
  owner :: "OwnerRead option"
  pr_created_at :: datetime
  pr_updated_at :: datetime

definition make_PetRead ::
  "PetBase \<Rightarrow> uuid \<Rightarrow> OwnerRead option \<Rightarrow> datetime \<Rightarrow> datetime \<Rightarrow> PetRead" where
  "make_PetRead b i ow c u =
     \<lparr>name = name b, species = species b, breed = breed b, birth_date = birth_date b,
      color = color b, pr_id = i, owner = ow, pr_created_at = c, pr_updated_at = u\<rparr>"

definition validate_PetRead :: "lib \<Rightarrow> payload \<Rightarrow> env \<Rightarrow> PetRead result \<times> env" where
  "validate_PetRead L p e =
     (let (i, e1) = with_factory ''id'' (pure_validator (uuid_validator L)) uuid4 p e;
          (ow, e2) = with_factory ''owner''
                       (optional_st (model_validator (validate_OwnerRead L))) no_value p e1;
          (c, e3) = with_factory ''created_at'' (pure_validator (datetime_validator L)) utcnow p e2;
          (u, e4) = with_factory ''updated_at'' (pure_validator (datetime_validator L)) utcnow p e3
      in (ap (ap (ap (ap (ap (Inr make_PetRead) (validate_PetBase L p)) i) ow) c) u, e4))"

definition model_dump_PetRead :: "lib \<Rightarrow> mode \<Rightarrow> PetRead \<Rightarrow> payload" where
  "model_dump_PetRead L m r =
     [(''name'', PStr (name r)),
      (''species'', PStr (species r)),
      (''breed'', dump_optional PStr (breed r)),
      (''birth_date'', dump_optional (dump_date L m) (birth_date r)),
      (''color'', dump_optional PStr (color r)),
      (''id'', dump_uuid L m (pr_id r)),
      (''owner'', dump_optional (\<lambda>ow. PDict (model_dump_OwnerRead L m ow)) (owner r)),
      (''created_at'', dump_datetime L m (pr_created_at r)),
      (''updated_at'', dump_datetime L m (pr_updated_at r))]"

section \<open>What makes a payload invalid\<close>

text \<open>
  The defects of a payload, stated on the payload alone: a key is missing, a value has the
  wrong type for its field, an email or a date is malformed. The lemmas below relate them
  to the outcome of validation.
\<close>

fun is_str :: "pyval \<Rightarrow> bool" where
  "is_str (PStr s) = True"
| "is_str _ = False"

definition is_missing :: "string \<Rightarrow> payload \<Rightarrow> bool" where
  "is_missing k p = (map_of p k = None)"

definition wrong_type_str :: "string \<Rightarrow> payload \<Rightarrow> bool" where
  "wrong_type_str k p = (case map_of p k of None \<Rightarrow> False | Some x \<Rightarrow> \<not> is_str x)"

definition wrong_type_optional_str :: "string \<Rightarrow> payload \<Rightarrow> bool" where
  "wrong_type_optional_str k p =
     (case map_of p k of None \<Rightarrow> False | Some x \<Rightarrow> x \<noteq> PNone \<and> \<not> is_str x)"

definition malformed_email :: "lib \<Rightarrow> payload \<Rightarrow> bool" where
  "malformed_email L p =
     (case map_of p ''email'' of Some (PStr s) \<Rightarrow> validate_email L s = None | _ \<Rightarrow> False)"

fun not_uuid :: "lib \<Rightarrow> pyval \<Rightarrow> bool" where
  "not_uuid L (PUuid u) = False"
| "not_uuid L x = (uuid_lax L x = None)"

fun not_date :: "lib \<Rightarrow> pyval \<Rightarrow> bool" where
  "not_date L (PDate d) = False"
| "not_date L x = (date_lax L x = None)"

definition wrong_type_uuid :: "lib \<Rightarrow> string \<Rightarrow> payload \<Rightarrow> bool" where
  "wrong_type_uuid L k p = (case map_of p k of None \<Rightarrow> False | Some x \<Rightarrow> not_uuid L x)"

definition malformed_date :: "lib \<Rightarrow> string \<Rightarrow> payload \<Rightarrow> bool" where
  "malformed_date L k p =
     (case map_of p k of None \<Rightarrow> False | Some x \<Rightarrow> x \<noteq> PNone \<and> not_date L x)"

definition empty_text :: "string \<Rightarrow> payload \<Rightarrow> bool" where
  "empty_text k p = (map_of p k = Some (PStr []))"

text \<open>
  The defects of an item of addresses. It has the wrong type when it is not a dictionary
  or when a key that is present holds a value of the wrong type. It is incomplete when it
  is a dictionary that lacks street, city, postal_code or country, or holds the empty
  string there. It is a valid address when it has neither defect.
\<close>

fun address_wrong_type :: "lib \<Rightarrow> pyval \<Rightarrow> bool" where
  "address_wrong_type L (PDict p) =
     (wrong_type_uuid L ''id'' p
      \<or> wrong_type_str ''street'' p \<or> wrong_type_str ''city'' p
      \<or> wrong_type_optional_str ''state'' p
      \<or> wrong_type_str ''postal_code'' p \<or> wrong_type_str ''country'' p)"
| "address_wrong_type L _ = True"

fun address_incomplete :: "pyval \<Rightarrow> bool" where
  "address_incomplete (PDict p) =
     (is_missing ''street'' p \<or> is_missing ''city'' p
      \<or> is_missing ''postal_code'' p \<or> is_missing ''country'' p
      \<or> empty_text ''street'' p \<or> empty_text ''city'' p
      \<or> empty_text ''postal_code'' p \<or> empty_text ''country'' p)"
| "address_incomplete _ = False"

definition address_ok :: "lib \<Rightarrow> pyval \<Rightarrow> bool" where
  "address_ok L x = (\<not> address_wrong_type L x \<and> \<not> address_incomplete x)"

text \<open>
  The value of addresses is not a list of valid addresses: it is not a list, or an item
  of the list is not a valid address.
\<close>

definition wrong_type_addresses :: "lib \<Rightarrow> payload \<Rightarrow> bool" where
  "wrong_type_addresses L p =
     (case map_of p ''addresses'' of
        None \<Rightarrow> False
      | Some (PList xs) \<Rightarrow> \<not> list_all (address_ok L) xs
      | Some _ \<Rightarrow> True)"



text \<open>The errors that a result reports.\<close>

definition errors :: "'a result \<Rightarrow> verr list" where
  "errors r = (case r of Inl es \<Rightarrow> es | Inr _ \<Rightarrow> [])"

definition wrong_type_optional_addresses :: "lib \<Rightarrow> payload \<Rightarrow> bool" where
  "wrong_type_optional_addresses L p =
     (case map_of p ''addresses'' of
        None \<Rightarrow> False
      | Some PNone \<Rightarrow> False
      | Some (PList xs) \<Rightarrow> \<not> list_all (address_ok L) xs
      | Some _ \<Rightarrow> True)"

section \<open>Records that hold what validation yields\<close>

text \<open>
  An owner is in validated form when validating its email returns the email unchanged
  and the required text of each of its addresses is non-empty. A record that validation
  returned is in this form as soon as the normalisation of emails is idempotent.
\<close>

definition address_filled :: "AddressBase \<Rightarrow> bool" where
  "address_filled a =
     (street a \<noteq> [] \<and> city a \<noteq> [] \<and> postal_code a \<noteq> [] \<and> country a \<noteq> [])"

definition validated_form :: "lib \<Rightarrow> 'a OwnerBase_scheme \<Rightarrow> bool" where
  "validated_form L r =
     (validate_email L (email r) = Some (email r) \<and> list_all address_filled (addresses r))"

definition pet_validated_form :: "lib \<Rightarrow> PetRead \<Rightarrow> bool" where
  "pet_validated_form L q = (case owner q of None \<Rightarrow> True | Some ow \<Rightarrow> validated_form L ow)"

definition idempotent_email :: "lib \<Rightarrow> bool" where
  "idempotent_email L =
     (\<forall>s s'. validate_email L s = Some s' \<longrightarrow> validate_email L s' = Some s')"

text \<open>
  The library reads back the text that it writes for a UUID, a date, a datetime; and for
  every identifier, date and timestamp of a record.
\<close>

definition reads_uuid :: "lib \<Rightarrow> uuid \<Rightarrow> bool" where
  "reads_uuid L u = (uuid_lax L (PStr (uuid_str L u)) = Some u)"

definition reads_date :: "lib \<Rightarrow> date \<Rightarrow> bool" where
  "reads_date L d = (date_lax L (PStr (date_str L d)) = Some d)"

definition reads_datetime :: "lib \<Rightarrow> datetime \<Rightarrow> bool" where
  "reads_datetime L t = (datetime_lax L (PStr (datetime_str L t)) = Some t)"

definition owner_text_readable :: "lib \<Rightarrow> OwnerRead \<Rightarrow> bool" where
  "owner_text_readable L r =
     (list_all (\<lambda>a. reads_uuid L (address_id a)) (addresses r)
      \<and> reads_uuid L (or_id r)
      \<and> reads_datetime L (or_created_at r)
      \<and> reads_datetime L (or_updated_at r))"

definition pet_text_readable :: "lib \<Rightarrow> PetRead \<Rightarrow> bool" where
  "pet_text_readable L q =
     ((case birth_date q of None \<Rightarrow> True | Some d \<Rightarrow> reads_date L d)
      \<and> reads_uuid L (pr_id q)
      \<and> (case owner q of None \<Rightarrow> True | Some ow \<Rightarrow> owner_text_readable L ow)
      \<and> reads_datetime L (pr_created_at q)
      \<and> reads_datetime L (pr_updated_at q))"

section \<open>Sample inputs\<close>

text \<open>
  Text forms for the sample library: a UUID as 32 hexadecimal digits in groups of 8, 4,
  4, 4 and 12, a date as YYYY-MM-DD, a datetime as YYYY-MM-DDTHH:MM:SS with the
  microseconds after a point when there are any.
\<close>

definition digit_chars :: string where
  "digit_chars = ''0123456789abcdef''"

fun numeral_str :: "nat \<Rightarrow> nat \<Rightarrow> nat \<Rightarrow> string" where
  "numeral_str b 0 v = []"
| "numeral_str b (Suc w) v = numeral_str b w (v div b) @ [digit_chars ! (v mod b)]"

definition digit_value :: "nat \<Rightarrow> char \<Rightarrow> nat option" where
  "digit_value b c =
     (case map_of (zip digit_chars [0..<16]) c of
        None \<Rightarrow> None
      | Some d \<Rightarrow> if d < b then Some d else None)"

fun numeral_value :: "nat \<Rightarrow> nat \<Rightarrow> string \<Rightarrow> nat option" where
  "numeral_value b acc [] = Some acc"
| "numeral_value b acc (c # cs) =
     (case digit_value b c of None \<Rightarrow> None | Some d \<Rightarrow> numeral_value b (b * acc + d) cs)"

definition canonical_uuid :: "uuid \<Rightarrow> string" where
  "canonical_uuid u =
     (let h = numeral_str 16 32 (unat u)
      in take 8 h @ ''-'' @ take 4 (drop 8 h) @ ''-'' @ take 4 (drop 12 h) @ ''-''
           @ take 4 (drop 16 h) @ ''-'' @ drop 20 h)"

definition read_uuid :: "pyval \<Rightarrow> uuid option" where
  "read_uuid x =
     (case x of
        PStr s \<Rightarrow>
          if length s = 36 \<and> s ! 8 = CHR ''-'' \<and> s ! 13 = CHR ''-'' \<and> s ! 18 = CHR ''-''
               \<and> s ! 23 = CHR ''-''
          then map_option of_nat (numeral_value 16 0 (filter (\<lambda>c. c \<noteq> CHR ''-'') s))
          else None
      | _ \<Rightarrow> None)"

fun iso_date :: "date \<Rightarrow> string" where
  "iso_date (Date y m d) =
     numeral_str 10 4 y @ ''-'' @ numeral_str 10 2 m @ ''-'' @ numeral_str 10 2 d"

definition read_date_text :: "string \<Rightarrow> date option" where
  "read_date_text s =
     (if length s = 10 \<and> s ! 4 = CHR ''-'' \<and> s ! 7 = CHR ''-''
      then (case (numeral_value 10 0 (take 4 s), numeral_value 10 0 (take 2 (drop 5 s)),
                  numeral_value 10 0 (drop 8 s)) of
              (Some y, Some m, Some d) \<Rightarrow> Some (Date y m d)
            | _ \<Rightarrow> None)
      else None)"

definition read_date :: "pyval \<Rightarrow> date option" where
  "read_date x = (case x of PStr s \<Rightarrow> read_date_text s | _ \<Rightarrow> None)"

fun iso_datetime :: "datetime \<Rightarrow> string" where
  "iso_datetime (Datetime y mo d h mi s us) =
     iso_date (Date y mo d) @ ''T'' @ numeral_str 10 2 h @ '':'' @ numeral_str 10 2 mi
       @ '':'' @ numeral_str 10 2 s @ (if us = 0 then [] else ''.'' @ numeral_str 10 6 us)"

definition read_time_text :: "string \<Rightarrow> (nat \<times> nat \<times> nat \<times> nat) option" where
  "read_time_text s =
     (if (length s = 8 \<or> length s = 15 \<and> s ! 8 = CHR ''.'')
           \<and> s ! 2 = CHR '':'' \<and> s ! 5 = CHR '':''
      then (case (numeral_value 10 0 (take 2 s), numeral_value 10 0 (take 2 (drop 3 s)),
                  numeral_value 10 0 (take 2 (drop 6 s)), numeral_value 10 0 (drop 9 s)) of
              (Some h, Some mi, Some sec, Some us) \<Rightarrow> Some (h, mi, sec, us)
            | _ \<Rightarrow> None)
      else None)"

definition read_datetime :: "pyval \<Rightarrow> datetime option" where
  "read_datetime x =
     (case x of
        PStr s \<Rightarrow>
          (if 10 < length s \<and> s ! 10 = CHR ''T''
           then (case (read_date_text (take 10 s), read_time_text (drop 11 s)) of
                   (Some (Date y mo d), Some (h, mi, sec, us)) \<Rightarrow>
                     Some (Datetime y mo d h mi sec us)
                 | _ \<Rightarrow> None)
           else None)
      | _ \<Rightarrow> None)"

text \<open>
  A library and an environment for evaluating the definitions at concrete inputs: the
  email check accepts every string with an at-sign as it is, and the lax conversions read
  the text forms above and nothing else; the n-th identifier is n, and the n-th reading
  of the clock is n microseconds past 2025-03-15 10:20:30.
\<close>

definition sample_lib :: lib where
  "sample_lib =
     \<lparr>email_normalize = Some, uuid_lax = read_uuid, date_lax = read_date,
      datetime_lax = read_datetime, uuid_str = canonical_uuid, date_str = iso_date,
      datetime_str = iso_datetime\<rparr>"

definition sample_env :: env where
  "sample_env =
     \<lparr>uuid_src = of_nat, uuid_calls = 0,
      clock = (\<lambda>n. Datetime 2025 3 15 10 20 30 n), clock_calls = 0\<rparr>"

text \<open>
  A library that differs from it in the normalisation of an email: the part from the
  at-sign on is put in lower case, as the email validator does with the domain.
\<close>

definition lower_char :: "char \<Rightarrow> char" where
  "lower_char c =
     (case map_of (zip ''ABCDEFGHIJKLMNOPQRSTUVWXYZ'' ''abcdefghijklmnopqrstuvwxyz'') c of
        None \<Rightarrow> c
      | Some d \<Rightarrow> d)"

definition lower_domain :: "string \<Rightarrow> string" where
  "lower_domain s =
     takeWhile (\<lambda>c. c \<noteq> CHR ''@'') s @ map lower_char (dropWhile (\<lambda>c. c \<noteq> CHR ''@'') s)"

definition lowering_lib :: lib where
  "lowering_lib = sample_lib\<lparr>email_normalize := (\<lambda>s. Some (lower_domain s))\<rparr>"

text \<open>An owner with one address, and a pet of that owner, as the server holds them.\<close>

definition sample_owner :: OwnerRead where
  "sample_owner =
     \<lparr>first_name = ''Ada'', last_name = ''Lovelace'', email = ''ada@example.com'',
      phone = Some ''+1-555-0000'', government_id = None,
      addresses =
        [\<lparr>address_id = 1, street = ''123 Main St'', city = ''London'', state = None,
          postal_code = ''SW1A 1AA'', country = ''UK''\<rparr>],
      or_id = 2, or_created_at = Datetime 2025 3 15 10 20 30 0,
      or_updated_at = Datetime 2025 3 16 12 0 0 42\<rparr>"

definition sample_pet :: PetRead where
  "sample_pet =
     \<lparr>name = ''Buddy'', species = ''Dog'', breed = Some ''Golden Retriever'',
      birth_date = Some (Date 2020 5 10), color = None,
      pr_id = 3, owner = Some sample_owner,
      pr_created_at = Datetime 2025 3 15 10 20 30 0,
      pr_updated_at = Datetime 2025 3 16 12 0 0 0\<rparr>"

text \<open>The same owner with its email as a client may have typed it.\<close>

definition shouting_owner :: OwnerRead where
  "shouting_owner = sample_owner\<lparr>email := ''Ada@EXAMPLE.COM''\<rparr>"

section \<open>Collecting the results of the fields\<close>

lemma ap_Inr_Inr: "ap (Inr f) (Inr x) = Inr (f x)"
  by (simp add: ap_def)

lemma isl_ap: "isl (ap rf rx) \<longleftrightarrow> isl rf \<or> isl rx"
  by (cases rf; cases rx) (simp_all add: ap_def)

lemma ap_eq_Inr: "ap rf rx = Inr y \<longleftrightarrow> (\<exists>f x. rf = Inr f \<and> rx = Inr x \<and> y = f x)"
  by (cases rf; cases rx) (auto simp: ap_def)

lemma at_loc_Inr: "at_loc i (Inr x) = Inr x"
  by (simp add: at_loc_def)

lemma isl_at_loc: "isl (at_loc i r) = isl r"
  by (cases r) (simp_all add: at_loc_def)

lemma at_loc_eq_Inr: "at_loc i r = Inr x \<longleftrightarrow> r = Inr x"
  by (cases r) (simp_all add: at_loc_def)

lemma fields_set_Nil: "fields_set names [] = {}"
  by (simp add: fields_set_def)

section \<open>The empty update\<close>

text \<open>
  C10. The empty payload is a valid \<open>OwnerUpdate\<close> and a valid \<open>PetUpdate\<close>: every field
  of the validated update is None, no field is recorded as supplied, and neither an
  identifier nor a timestamp is generated.
\<close>

theorem empty_update_validates:
  "validate_OwnerUpdate L [] e =
     (Inr \<lparr>ou_first_name = None, ou_last_name = None, ou_email = None, ou_phone = None,
           ou_government_id = None, ou_addresses = None, ou_fields_set = {}\<rparr>, e)
   \<and> validate_PetUpdate L [] e =
     (Inr \<lparr>pu_name = None, pu_species = None, pu_breed = None, pu_birth_date = None,
           pu_color = None, pu_fields_set = {}\<rparr>, e)"
  by (simp add: validate_OwnerUpdate_def validate_PetUpdate_def with_factory_def
      with_default_def no_value_def ap_Inr_Inr make_OwnerUpdate_def make_PetUpdate_def
      fields_set_Nil)

section \<open>Validation fails exactly on the defects\<close>

lemma isl_str_validator: "isl (str_validator x) \<longleftrightarrow> \<not> is_str x"
  by (cases x) simp_all

lemma isl_optional_str: "isl (optional str_validator x) \<longleftrightarrow> x \<noteq> PNone \<and> \<not> is_str x"
  by (cases x) simp_all

lemma isl_uuid_validator: "isl (uuid_validator L x) \<longleftrightarrow> not_uuid L x"
  by (cases x) (simp_all split: option.splits)

lemma isl_optional_date: "isl (optional (date_validator L) x) \<longleftrightarrow> x \<noteq> PNone \<and> not_date L x"
  by (cases x) (simp_all split: option.splits)

lemma isl_required_str:
  "isl (required k str_validator p) \<longleftrightarrow> is_missing k p \<or> wrong_type_str k p"
  by (simp add: required_def is_missing_def wrong_type_str_def isl_at_loc isl_str_validator
      split: option.splits)

lemma isl_default_optional_str:
  "isl (with_default k (optional str_validator) None p) \<longleftrightarrow> wrong_type_optional_str k p"
  by (simp add: with_default_def wrong_type_optional_str_def isl_at_loc isl_optional_str
      split: option.splits)

lemma isl_required_email:
  "isl (required ''email'' (email_validator L) p) \<longleftrightarrow>
     is_missing ''email'' p \<or> wrong_type_str ''email'' p \<or> malformed_email L p"
proof (cases "map_of p ''email''")
  case None
  then show ?thesis by (simp add: required_def is_missing_def)
next
  case (Some x)
  then show ?thesis
    by (cases x)
      (simp_all add: required_def is_missing_def wrong_type_str_def malformed_email_def
        isl_at_loc split: option.splits)
qed

lemma isl_required_uuid:
  "isl (required k (uuid_validator L) p) \<longleftrightarrow> is_missing k p \<or> wrong_type_uuid L k p"
  by (simp add: required_def is_missing_def wrong_type_uuid_def isl_at_loc isl_uuid_validator
      split: option.splits)

lemma isl_default_optional_date:
  "isl (with_default k (optional (date_validator L)) None p) \<longleftrightarrow> malformed_date L k p"
  by (simp add: with_default_def malformed_date_def isl_at_loc isl_optional_date
      split: option.splits)

lemma isl_factory_uuid:
  "isl (fst (with_factory k (pure_validator (uuid_validator L)) uuid4 p e))
     \<longleftrightarrow> wrong_type_uuid L k p"
  by (simp add: with_factory_def pure_validator_def wrong_type_uuid_def isl_at_loc
      isl_uuid_validator uuid4_def split: option.splits)

lemma isl_nonempty_str_validator:
  "isl (nonempty_str_validator x) \<longleftrightarrow> \<not> is_str x \<or> x = PStr []"
  by (cases x) simp_all

lemma isl_required_nonempty_str:
  "isl (required k nonempty_str_validator p) \<longleftrightarrow>
     is_missing k p \<or> wrong_type_str k p \<or> empty_text k p"
  by (auto simp: required_def is_missing_def wrong_type_str_def empty_text_def isl_at_loc
      isl_nonempty_str_validator split: option.splits)

lemma isl_validate_AddressBase:
  "isl (fst (validate_AddressBase L p e)) \<longleftrightarrow> \<not> address_ok L (PDict p)"
  by (simp add: validate_AddressBase_def split_beta isl_ap isl_required_nonempty_str
      isl_default_optional_str isl_factory_uuid address_ok_def) blast

lemma isl_address_items:
  "isl (fst (list_items (model_validator (validate_AddressBase L)) i xs e))
     \<longleftrightarrow> \<not> list_all (address_ok L) xs"
proof (induction xs arbitrary: i e)
  case Nil
  then show ?case by simp
next
  case (Cons x xs)
  have item: "isl (fst (model_validator (validate_AddressBase L) x e)) \<longleftrightarrow> \<not> address_ok L x"
    by (cases x) (simp_all add: isl_validate_AddressBase address_ok_def)
  show ?case
    by (simp add: split_beta isl_ap isl_at_loc item Cons.IH)
qed

lemma isl_addresses_field:
  "isl (fst (with_factory ''addresses'' (addresses_validator L) new_list p e))
     \<longleftrightarrow> wrong_type_addresses L p"
proof (cases "map_of p ''addresses''")
  case None
  then show ?thesis by (simp add: with_factory_def new_list_def wrong_type_addresses_def)
next
  case (Some x)
  then show ?thesis
    by (cases x)
      (simp_all add: with_factory_def wrong_type_addresses_def addresses_validator_def
        split_beta isl_at_loc isl_address_items)
qed

lemma isl_validate_OwnerBase:
  "isl (fst (validate_OwnerBase L p e)) \<longleftrightarrow>
     is_missing ''first_name'' p \<or> is_missing ''last_name'' p \<or> is_missing ''email'' p
     \<or> wrong_type_str ''first_name'' p \<or> wrong_type_str ''last_name'' p
     \<or> wrong_type_str ''email'' p \<or> wrong_type_optional_str ''phone'' p
     \<or> wrong_type_optional_str ''government_id'' p \<or> wrong_type_addresses L p
     \<or> malformed_email L p"
  by (simp add: validate_OwnerBase_def split_beta isl_ap isl_required_str
      isl_default_optional_str isl_required_email isl_addresses_field) blast

lemma isl_validate_PetBase:
  "isl (validate_PetBase L p) \<longleftrightarrow>
     is_missing ''name'' p \<or> is_missing ''species'' p
     \<or> wrong_type_str ''name'' p \<or> wrong_type_str ''species'' p
     \<or> wrong_type_optional_str ''breed'' p \<or> malformed_date L ''birth_date'' p
     \<or> wrong_type_optional_str ''color'' p"
  by (simp add: validate_PetBase_def isl_ap isl_required_str isl_default_optional_str
      isl_default_optional_date) blast

lemma errors_ap: "set (errors (ap rf rx)) = set (errors rf) \<union> set (errors rx)"
  by (cases rf; cases rx) (simp_all add: ap_def errors_def)

lemma errors_required_missing:
  "is_missing k p \<Longrightarrow> errors (required k v p) = [VErr [Key k] Missing]"
  by (simp add: is_missing_def required_def errors_def)

lemma isl_default_optional_email:
  "isl (with_default ''email'' (optional (email_validator L)) None p) \<longleftrightarrow>
     wrong_type_optional_str ''email'' p \<or> malformed_email L p"
proof (cases "map_of p ''email''")
  case None
  then show ?thesis
    by (simp add: with_default_def wrong_type_optional_str_def malformed_email_def)
next
  case (Some x)
  then show ?thesis
    by (cases x)
      (simp_all add: with_default_def wrong_type_optional_str_def malformed_email_def
        isl_at_loc split: option.splits)
qed

lemma isl_optional_addresses_field:
  "isl (fst (with_factory ''addresses'' (optional_st (addresses_validator L)) no_value p e))
     \<longleftrightarrow> wrong_type_optional_addresses L p"
proof (cases "map_of p ''addresses''")
  case None
  then show ?thesis
    by (simp add: with_factory_def no_value_def wrong_type_optional_addresses_def)
next
  case (Some x)
  then show ?thesis
    by (cases x)
      (simp_all add: with_factory_def wrong_type_optional_addresses_def
        addresses_validator_def split_beta isl_at_loc isl_ap isl_address_items)
qed

lemma isl_validate_OwnerUpdate:
  "isl (fst (validate_OwnerUpdate L p e)) \<longleftrightarrow>
     wrong_type_optional_str ''first_name'' p \<or> wrong_type_optional_str ''last_name'' p
     \<or> wrong_type_optional_str ''email'' p \<or> wrong_type_optional_str ''phone'' p
     \<or> wrong_type_optional_str ''government_id'' p \<or> wrong_type_optional_addresses L p
     \<or> malformed_email L p"
  by (simp add: validate_OwnerUpdate_def split_beta isl_ap isl_default_optional_str
      isl_default_optional_email isl_optional_addresses_field) blast

lemma isl_validate_PetCreate:
  "isl (fst (validate_PetCreate L p e)) \<longleftrightarrow>
     is_missing ''name'' p \<or> is_missing ''species'' p \<or> is_missing ''owner_id'' p
     \<or> wrong_type_str ''name'' p \<or> wrong_type_str ''species'' p
     \<or> wrong_type_optional_str ''breed'' p \<or> malformed_date L ''birth_date'' p
     \<or> wrong_type_optional_str ''color'' p \<or> wrong_type_uuid L ''owner_id'' p"
  by (simp add: validate_PetCreate_def isl_ap isl_validate_PetBase isl_required_uuid) blast

lemma isl_validate_PetUpdate:
  "isl (fst (validate_PetUpdate L p e)) \<longleftrightarrow>
     wrong_type_optional_str ''name'' p \<or> wrong_type_optional_str ''species'' p
     \<or> wrong_type_optional_str ''breed'' p \<or> malformed_date L ''birth_date'' p
     \<or> wrong_type_optional_str ''color'' p"
  by (simp add: validate_PetUpdate_def isl_ap isl_default_optional_str
      isl_default_optional_date)


section \<open>Rejection of invalid payloads\<close>





text \<open>
  C5. When name, species or owner_id is missing from a Pet Create payload, validation
  yields errors and no validated payload, so there is nothing to build a Read record
  from; the errors name each missing field, and no identifier or timestamp has been
  generated (the environment is unchanged).
\<close>

theorem PetCreate_missing_required:
  assumes "is_missing ''name'' p \<or> is_missing ''species'' p \<or> is_missing ''owner_id'' p"
  shows "\<exists>es. validate_PetCreate L p e = (Inl es, e)
           \<and> (is_missing ''name'' p \<longrightarrow> VErr [Key ''name''] Missing \<in> set es)
           \<and> (is_missing ''species'' p \<longrightarrow> VErr [Key ''species''] Missing \<in> set es)
           \<and> (is_missing ''owner_id'' p \<longrightarrow> VErr [Key ''owner_id''] Missing \<in> set es)"
proof -
  have "isl (fst (validate_PetCreate L p e))"
    using assms by (auto simp: isl_validate_PetCreate)
  then obtain es where es: "fst (validate_PetCreate L p e) = Inl es"
    by (auto simp: isl_def)
  have env: "snd (validate_PetCreate L p e) = e"
    by (simp add: validate_PetCreate_def)
  have all: "set es = set (errors (fst (validate_PetCreate L p e)))"
    by (simp add: es errors_def)
  have parts: "set (errors (fst (validate_PetCreate L p e))) =
      set (errors (required ''name'' str_validator p))
      \<union> set (errors (required ''species'' str_validator p))
      \<union> set (errors (with_default ''breed'' (optional str_validator) None p))
      \<union> set (errors (with_default ''birth_date'' (optional (date_validator L)) None p))
      \<union> set (errors (with_default ''color'' (optional str_validator) None p))
      \<union> set (errors (required ''owner_id'' (uuid_validator L) p))"
    by (simp add: validate_PetCreate_def validate_PetBase_def errors_ap) (simp add: errors_def)
  have whole: "validate_PetCreate L p e = (Inl es, e)"
    using es env by (metis prod.collapse)
  have "VErr [Key k] Missing \<in> set es"
    if "is_missing k p" "k = ''name'' \<or> k = ''species'' \<or> k = ''owner_id''" for k
    using that unfolding all parts by (auto simp: errors_required_missing)
  then show ?thesis
    using whole by simp
qed

theorem PetCreate_missing_required_witness:
  "\<exists>es. validate_PetCreate sample_lib [(''name'', PStr ''Buddy''), (''species'', PStr ''Dog'')]
           sample_env = (Inl es, sample_env)
      \<and> VErr [Key ''owner_id''] Missing \<in> set es"
  using PetCreate_missing_required [of "[(''name'', PStr ''Buddy''), (''species'', PStr ''Dog'')]"
      sample_lib sample_env]
  by (simp add: is_missing_def)

section \<open>The fields of a validated payload\<close>

lemma required_Cons:
  "required k' v ((k, x) # p) = (if k' = k then at_loc (Key k) (v x) else required k' v p)"
  by (simp add: required_def)

lemma with_default_Cons:
  "with_default k' v d ((k, x) # p) =
     (if k' = k then at_loc (Key k) (v x) else with_default k' v d p)"
  by (simp add: with_default_def)

lemma with_factory_Cons:
  "k' \<noteq> k \<Longrightarrow> with_factory k' v f ((k, x) # p) e = with_factory k' v f p e"
  by (simp add: with_factory_def)

lemma not_isl_Inr: "\<not> isl r \<Longrightarrow> \<exists>x. r = Inr x"
  by (cases r) auto

lemma validate_OwnerBase_Inr:
  assumes "fst (validate_OwnerBase L p e) = Inr c"
  shows "required ''first_name'' str_validator p = Inr (first_name c)"
    and "required ''last_name'' str_validator p = Inr (last_name c)"
    and "required ''email'' (email_validator L) p = Inr (email c)"
    and "with_default ''phone'' (optional str_validator) None p = Inr (phone c)"
    and "with_default ''government_id'' (optional str_validator) None p
           = Inr (government_id c)"
    and "fst (with_factory ''addresses'' (addresses_validator L) new_list p e)
           = Inr (addresses c)"
proof -
  have "\<not> isl (fst (validate_OwnerBase L p e))"
    using assms by simp
  then have
    "\<not> isl (required ''first_name'' str_validator p)"
    "\<not> isl (required ''last_name'' str_validator p)"
    "\<not> isl (required ''email'' (email_validator L) p)"
    "\<not> isl (with_default ''phone'' (optional str_validator) None p)"
    "\<not> isl (with_default ''government_id'' (optional str_validator) None p)"
    "\<not> isl (fst (with_factory ''addresses'' (addresses_validator L) new_list p e))"
    by (simp_all add: validate_OwnerBase_def split_beta isl_ap)
  then obtain f l m ph g a where eqs:
    "required ''first_name'' str_validator p = Inr f"
    "required ''last_name'' str_validator p = Inr l"
    "required ''email'' (email_validator L) p = Inr m"
    "with_default ''phone'' (optional str_validator) None p = Inr ph"
    "with_default ''government_id'' (optional str_validator) None p = Inr g"
    "fst (with_factory ''addresses'' (addresses_validator L) new_list p e) = Inr a"
    by (meson not_isl_Inr)
  have "fst (validate_OwnerBase L p e) = Inr (make_OwnerBase f l m ph g a)"
    by (simp add: validate_OwnerBase_def split_beta eqs ap_Inr_Inr)
  with assms have c: "c = make_OwnerBase f l m ph g a"
    by simp
  show "required ''first_name'' str_validator p = Inr (first_name c)"
    and "required ''last_name'' str_validator p = Inr (last_name c)"
    and "required ''email'' (email_validator L) p = Inr (email c)"
    and "with_default ''phone'' (optional str_validator) None p = Inr (phone c)"
    and "with_default ''government_id'' (optional str_validator) None p
           = Inr (government_id c)"
    and "fst (with_factory ''addresses'' (addresses_validator L) new_list p e)
           = Inr (addresses c)"
    by (simp_all add: eqs c make_OwnerBase_def)
qed

lemma validate_OwnerBase_build:
  assumes "required ''first_name'' str_validator p = Inr f"
    and "required ''last_name'' str_validator p = Inr l"
    and "required ''email'' (email_validator L) p = Inr m"
    and "with_default ''phone'' (optional str_validator) None p = Inr ph"
    and "with_default ''government_id'' (optional str_validator) None p = Inr g"
    and "fst (with_factory ''addresses'' (addresses_validator L) new_list p e) = Inr a"
  shows "fst (validate_OwnerBase L p e) = Inr (make_OwnerBase f l m ph g a)"
  by (simp add: validate_OwnerBase_def split_beta assms ap_Inr_Inr)

lemma validate_PetBase_Inr:
  assumes "validate_PetBase L p = Inr c"
  shows "required ''name'' str_validator p = Inr (name c)"
    and "required ''species'' str_validator p = Inr (species c)"
    and "with_default ''breed'' (optional str_validator) None p = Inr (breed c)"
    and "with_default ''birth_date'' (optional (date_validator L)) None p
           = Inr (birth_date c)"
    and "with_default ''color'' (optional str_validator) None p = Inr (color c)"
proof -
  have "\<not> isl (validate_PetBase L p)"
    using assms by simp
  then have
    "\<not> isl (required ''name'' str_validator p)"
    "\<not> isl (required ''species'' str_validator p)"
    "\<not> isl (with_default ''breed'' (optional str_validator) None p)"
    "\<not> isl (with_default ''birth_date'' (optional (date_validator L)) None p)"
    "\<not> isl (with_default ''color'' (optional str_validator) None p)"
    by (simp_all add: validate_PetBase_def isl_ap)
  then obtain n s b d co where eqs:
    "required ''name'' str_validator p = Inr n"
    "required ''species'' str_validator p = Inr s"
    "with_default ''breed'' (optional str_validator) None p = Inr b"
    "with_default ''birth_date'' (optional (date_validator L)) None p = Inr d"
    "with_default ''color'' (optional str_validator) None p = Inr co"
    by (meson not_isl_Inr)
  have "validate_PetBase L p = Inr (make_PetBase n s b d co)"
    by (simp add: validate_PetBase_def eqs ap_Inr_Inr)
  with assms have c: "c = make_PetBase n s b d co"
    by simp
  show "required ''name'' str_validator p = Inr (name c)"
    and "required ''species'' str_validator p = Inr (species c)"
    and "with_default ''breed'' (optional str_validator) None p = Inr (breed c)"
    and "with_default ''birth_date'' (optional (date_validator L)) None p
           = Inr (birth_date c)"
    and "with_default ''color'' (optional str_validator) None p = Inr (color c)"
    by (simp_all add: eqs c make_PetBase_def)
qed

lemma validate_PetBase_build:
  assumes "required ''name'' str_validator p = Inr n"
    and "required ''species'' str_validator p = Inr s"
    and "with_default ''breed'' (optional str_validator) None p = Inr b"
    and "with_default ''birth_date'' (optional (date_validator L)) None p = Inr d"
    and "with_default ''color'' (optional str_validator) None p = Inr co"
  shows "validate_PetBase L p = Inr (make_PetBase n s b d co)"
  by (simp add: validate_PetBase_def assms ap_Inr_Inr)

lemma validate_PetCreate_Inr:
  assumes "fst (validate_PetCreate L p e) = Inr c"
  shows "validate_PetBase L p = Inr (PetBase.truncate c)"
    and "required ''owner_id'' (uuid_validator L) p = Inr (owner_id c)"
proof -
  have "\<not> isl (fst (validate_PetCreate L p e))"
    using assms by simp
  then have
    "\<not> isl (validate_PetBase L p)"
    "\<not> isl (required ''owner_id'' (uuid_validator L) p)"
    by (simp_all add: validate_PetCreate_def isl_ap)
  then obtain b oid where eqs:
    "validate_PetBase L p = Inr b"
    "required ''owner_id'' (uuid_validator L) p = Inr oid"
    by (meson not_isl_Inr)
  have "fst (validate_PetCreate L p e) = Inr (make_PetCreate b oid)"
    by (simp add: validate_PetCreate_def eqs ap_Inr_Inr)
  with assms have c: "c = make_PetCreate b oid"
    by simp
  show "validate_PetBase L p = Inr (PetBase.truncate c)"
    and "required ''owner_id'' (uuid_validator L) p = Inr (owner_id c)"
    by (simp_all add: eqs c make_PetCreate_def PetBase.truncate_def)
qed

section \<open>Text fields may be empty\<close>

text \<open>
  C9. A required text field carries no constraint on its content. Replacing first_name
  or last_name by the empty string in a valid Owner Create payload, or name or species in
  a valid Pet Create payload, gives a payload that validates too, to the same record with
  that field empty.
\<close>

theorem empty_text_accepted:
  "(fst (validate_OwnerCreate L p e) = Inr c \<longrightarrow>
      fst (validate_OwnerCreate L ((''first_name'', PStr '''') # p) e)
        = Inr (c\<lparr>first_name := ''''\<rparr>)
      \<and> fst (validate_OwnerCreate L ((''last_name'', PStr '''') # p) e)
        = Inr (c\<lparr>last_name := ''''\<rparr>))
   \<and> (fst (validate_PetCreate L q e) = Inr d \<longrightarrow>
      fst (validate_PetCreate L ((''name'', PStr '''') # q) e) = Inr (d\<lparr>name := ''''\<rparr>)
      \<and> fst (validate_PetCreate L ((''species'', PStr '''') # q) e)
        = Inr (d\<lparr>species := ''''\<rparr>))"
proof (intro conjI impI)
  assume c: "fst (validate_OwnerCreate L p e) = Inr c"
  note parts = validate_OwnerBase_Inr [OF c [unfolded validate_OwnerCreate_def]]
  have "fst (validate_OwnerBase L ((''first_name'', PStr '''') # p) e)
          = Inr (make_OwnerBase '''' (last_name c) (email c) (phone c) (government_id c)
                  (addresses c))"
    by (rule validate_OwnerBase_build)
      (simp_all add: required_Cons with_default_Cons with_factory_Cons parts at_loc_Inr)
  then show "fst (validate_OwnerCreate L ((''first_name'', PStr '''') # p) e)
          = Inr (c\<lparr>first_name := ''''\<rparr>)"
    by (simp add: validate_OwnerCreate_def make_OwnerBase_def)
  have "fst (validate_OwnerBase L ((''last_name'', PStr '''') # p) e)
          = Inr (make_OwnerBase (first_name c) '''' (email c) (phone c) (government_id c)
                  (addresses c))"
    by (rule validate_OwnerBase_build)
      (simp_all add: required_Cons with_default_Cons with_factory_Cons parts at_loc_Inr)
  then show "fst (validate_OwnerCreate L ((''last_name'', PStr '''') # p) e)
          = Inr (c\<lparr>last_name := ''''\<rparr>)"
    by (simp add: validate_OwnerCreate_def make_OwnerBase_def)
next
  assume d: "fst (validate_PetCreate L q e) = Inr d"
  note whole = validate_PetCreate_Inr [OF d]
  note parts = validate_PetBase_Inr [OF whole(1)]
  have "validate_PetBase L ((''name'', PStr '''') # q)
          = Inr (make_PetBase '''' (species d) (breed d) (birth_date d) (color d))"
    using parts
    by (intro validate_PetBase_build)
      (simp_all add: required_Cons with_default_Cons at_loc_Inr PetBase.truncate_def)
  then show "fst (validate_PetCreate L ((''name'', PStr '''') # q) e) = Inr (d\<lparr>name := ''''\<rparr>)"
    by (simp add: validate_PetCreate_def required_Cons whole(2) ap_Inr_Inr
        make_PetCreate_def make_PetBase_def)
  have "validate_PetBase L ((''species'', PStr '''') # q)
          = Inr (make_PetBase (name d) '''' (breed d) (birth_date d) (color d))"
    using parts
    by (intro validate_PetBase_build)
      (simp_all add: required_Cons with_default_Cons at_loc_Inr PetBase.truncate_def)
  then show "fst (validate_PetCreate L ((''species'', PStr '''') # q) e)
          = Inr (d\<lparr>species := ''''\<rparr>)"
    by (simp add: validate_PetCreate_def required_Cons whole(2) ap_Inr_Inr
        make_PetCreate_def make_PetBase_def)
qed

theorem empty_text_accepted_witness:
  "fst (validate_OwnerCreate sample_lib
     [(''first_name'', PStr ''''), (''last_name'', PStr ''''),
      (''email'', PStr ''ada@example.com'')] sample_env)
     = Inr \<lparr>first_name = '''', last_name = '''', email = ''ada@example.com'',
            phone = None, government_id = None, addresses = []\<rparr>
   \<and> fst (validate_PetCreate sample_lib
     [(''name'', PStr ''''), (''species'', PStr ''''), (''owner_id'', PUuid 7)] sample_env)
     = Inr \<lparr>name = '''', species = '''', breed = None, birth_date = None, color = None,
            owner_id = 7\<rparr>"
proof -
  have base: "fst (validate_OwnerCreate sample_lib
      [(''last_name'', PStr ''''), (''email'', PStr ''ada@example.com''),
       (''first_name'', PStr ''Ada'')] sample_env)
      = Inr \<lparr>first_name = ''Ada'', last_name = '''', email = ''ada@example.com'',
             phone = None, government_id = None, addresses = []\<rparr>"
    by (simp add: validate_OwnerCreate_def validate_OwnerBase_def required_def
        with_default_def with_factory_def new_list_def at_loc_Inr ap_Inr_Inr
        make_OwnerBase_def validate_email_def sample_lib_def)
  have pbase: "fst (validate_PetCreate sample_lib
      [(''species'', PStr ''''), (''owner_id'', PUuid 7), (''name'', PStr ''Buddy'')]
      sample_env)
      = Inr \<lparr>name = ''Buddy'', species = '''', breed = None, birth_date = None,
             color = None, owner_id = 7\<rparr>"
    by (simp add: validate_PetCreate_def validate_PetBase_def required_def
        with_default_def at_loc_Inr ap_Inr_Inr make_PetCreate_def make_PetBase_def)
  have eqo: "fst (validate_OwnerCreate sample_lib
      [(''first_name'', PStr ''''), (''last_name'', PStr ''''),
       (''email'', PStr ''ada@example.com''), (''first_name'', PStr ''Ada'')] sample_env)
    = fst (validate_OwnerCreate sample_lib
      [(''first_name'', PStr ''''), (''last_name'', PStr ''''),
       (''email'', PStr ''ada@example.com'')] sample_env)"
    by (simp add: validate_OwnerCreate_def validate_OwnerBase_def required_def
        with_default_def with_factory_def)
  have eqp: "fst (validate_PetCreate sample_lib
      [(''name'', PStr ''''), (''species'', PStr ''''), (''owner_id'', PUuid 7),
       (''name'', PStr ''Buddy'')] sample_env)
    = fst (validate_PetCreate sample_lib
      [(''name'', PStr ''''), (''species'', PStr ''''), (''owner_id'', PUuid 7)] sample_env)"
    by (simp add: validate_PetCreate_def validate_PetBase_def required_def with_default_def)
  show ?thesis
    using empty_text_accepted [of sample_lib
        "[(''last_name'', PStr ''''), (''email'', PStr ''ada@example.com''),
          (''first_name'', PStr ''Ada'')]" sample_env
        "\<lparr>first_name = ''Ada'', last_name = '''', email = ''ada@example.com'',
           phone = None, government_id = None, addresses = []\<rparr>"
        "[(''species'', PStr ''''), (''owner_id'', PUuid 7), (''name'', PStr ''Buddy'')]"
        "\<lparr>name = ''Buddy'', species = '''', breed = None, birth_date = None,
           color = None, owner_id = 7\<rparr>"]
      base pbase
    by (simp add: eqo eqp)
qed

lemma isl_Inl: "isl r \<Longrightarrow> \<exists>es. r = Inl es"
  by (cases r) auto

text \<open>
  C8. A payload with any defect (a required field missing, a value of the wrong type, a
  malformed email, a malformed date) is rejected as a whole, whatever its other fields
  hold: validation yields the errors and no validated value. This holds for the Create
  and the Update payloads of Owner and of Pet.
\<close>

theorem rejected_in_full:
  "(is_missing ''first_name'' p \<or> is_missing ''last_name'' p \<or> is_missing ''email'' p
      \<or> wrong_type_str ''first_name'' p \<or> wrong_type_str ''last_name'' p
      \<or> wrong_type_str ''email'' p \<or> wrong_type_optional_str ''phone'' p
      \<or> wrong_type_optional_str ''government_id'' p \<or> wrong_type_addresses L p
      \<or> malformed_email L p
    \<longrightarrow> (\<exists>es. fst (validate_OwnerCreate L p e) = Inl es))
   \<and> (wrong_type_optional_str ''first_name'' p \<or> wrong_type_optional_str ''last_name'' p
      \<or> wrong_type_optional_str ''email'' p \<or> wrong_type_optional_str ''phone'' p
      \<or> wrong_type_optional_str ''government_id'' p \<or> wrong_type_optional_addresses L p
      \<or> malformed_email L p
    \<longrightarrow> (\<exists>es. fst (validate_OwnerUpdate L p e) = Inl es))
   \<and> (is_missing ''name'' p \<or> is_missing ''species'' p \<or> is_missing ''owner_id'' p
      \<or> wrong_type_str ''name'' p \<or> wrong_type_str ''species'' p
      \<or> wrong_type_optional_str ''breed'' p \<or> malformed_date L ''birth_date'' p
      \<or> wrong_type_optional_str ''color'' p \<or> wrong_type_uuid L ''owner_id'' p
    \<longrightarrow> (\<exists>es. fst (validate_PetCreate L p e) = Inl es))
   \<and> (wrong_type_optional_str ''name'' p \<or> wrong_type_optional_str ''species'' p
      \<or> wrong_type_optional_str ''breed'' p \<or> malformed_date L ''birth_date'' p
      \<or> wrong_type_optional_str ''color'' p
    \<longrightarrow> (\<exists>es. fst (validate_PetUpdate L p e) = Inl es))"
proof (intro conjI impI)
  assume "is_missing ''first_name'' p \<or> is_missing ''last_name'' p \<or> is_missing ''email'' p
      \<or> wrong_type_str ''first_name'' p \<or> wrong_type_str ''last_name'' p
      \<or> wrong_type_str ''email'' p \<or> wrong_type_optional_str ''phone'' p
      \<or> wrong_type_optional_str ''government_id'' p \<or> wrong_type_addresses L p
      \<or> malformed_email L p"
  then have "isl (fst (validate_OwnerCreate L p e))"
    unfolding validate_OwnerCreate_def isl_validate_OwnerBase .
  then show "\<exists>es. fst (validate_OwnerCreate L p e) = Inl es"
    by (rule isl_Inl)
next
  assume "wrong_type_optional_str ''first_name'' p \<or> wrong_type_optional_str ''last_name'' p
      \<or> wrong_type_optional_str ''email'' p \<or> wrong_type_optional_str ''phone'' p
      \<or> wrong_type_optional_str ''government_id'' p \<or> wrong_type_optional_addresses L p
      \<or> malformed_email L p"
  then have "isl (fst (validate_OwnerUpdate L p e))"
    unfolding isl_validate_OwnerUpdate .
  then show "\<exists>es. fst (validate_OwnerUpdate L p e) = Inl es"
    by (rule isl_Inl)
next
  assume "is_missing ''name'' p \<or> is_missing ''species'' p \<or> is_missing ''owner_id'' p
      \<or> wrong_type_str ''name'' p \<or> wrong_type_str ''species'' p
      \<or> wrong_type_optional_str ''breed'' p \<or> malformed_date L ''birth_date'' p
      \<or> wrong_type_optional_str ''color'' p \<or> wrong_type_uuid L ''owner_id'' p"
  then have "isl (fst (validate_PetCreate L p e))"
    unfolding isl_validate_PetCreate .
  then show "\<exists>es. fst (validate_PetCreate L p e) = Inl es"
    by (rule isl_Inl)
next
  assume "wrong_type_optional_str ''name'' p \<or> wrong_type_optional_str ''species'' p
      \<or> wrong_type_optional_str ''breed'' p \<or> malformed_date L ''birth_date'' p
      \<or> wrong_type_optional_str ''color'' p"
  then have "isl (fst (validate_PetUpdate L p e))"
    unfolding isl_validate_PetUpdate .
  then show "\<exists>es. fst (validate_PetUpdate L p e) = Inl es"
    by (rule isl_Inl)
qed

theorem rejected_in_full_witness:
  "(\<exists>es. fst (validate_OwnerCreate sample_lib
      [(''first_name'', PStr ''Ada''), (''last_name'', PStr ''Lovelace''),
       (''email'', PStr ''ada@example.com''), (''phone'', PInt 5550000)] sample_env) = Inl es)
   \<and> (\<exists>es. fst (validate_PetUpdate sample_lib
      [(''name'', PStr ''Max''), (''birth_date'', PStr ''yesterday'')] sample_env) = Inl es)"
proof -
  have o: "wrong_type_optional_str ''phone''
      [(''first_name'', PStr ''Ada''), (''last_name'', PStr ''Lovelace''),
       (''email'', PStr ''ada@example.com''), (''phone'', PInt 5550000)]"
    by (simp add: wrong_type_optional_str_def)
  have p: "malformed_date sample_lib ''birth_date''
      [(''name'', PStr ''Max''), (''birth_date'', PStr ''yesterday'')]"
    by (simp add: malformed_date_def sample_lib_def read_date_def read_date_text_def)
  show ?thesis
    using rejected_in_full [of
        "[(''first_name'', PStr ''Ada''), (''last_name'', PStr ''Lovelace''),
          (''email'', PStr ''ada@example.com''), (''phone'', PInt 5550000)]"
        sample_lib sample_env]
      rejected_in_full [of
        "[(''name'', PStr ''Max''), (''birth_date'', PStr ''yesterday'')]"
        sample_lib sample_env]
      o p
    by blast
qed

section \<open>The sample library reads back what it writes\<close>

lemma sample_datetime_text:
  "iso_datetime (Datetime 2025 3 16 12 0 0 42) = ''2025-03-16T12:00:00.000042''"
  "read_datetime (PStr ''2025-03-16T12:00:00.000042'') = Some (Datetime 2025 3 16 12 0 0 42)"
  "iso_datetime (Datetime 2025 3 15 10 20 30 0) = ''2025-03-15T10:20:30''"
  "read_datetime (PStr ''2025-03-15T10:20:30'') = Some (Datetime 2025 3 15 10 20 30 0)"
  "iso_datetime (Datetime 2025 3 16 12 0 0 0) = ''2025-03-16T12:00:00''"
  "read_datetime (PStr ''2025-03-16T12:00:00'') = Some (Datetime 2025 3 16 12 0 0 0)"
  by code_simp+

lemma sample_reads_datetime:
  "reads_datetime sample_lib (Datetime 2025 3 16 12 0 0 42)"
  "reads_datetime sample_lib (Datetime 2025 3 15 10 20 30 0)"
  "reads_datetime sample_lib (Datetime 2025 3 16 12 0 0 0)"
  by (simp_all only: reads_datetime_def sample_lib_def lib.select_convs sample_datetime_text)

lemma sample_reads_uuid:
  "reads_uuid sample_lib 1" "reads_uuid sample_lib 2" "reads_uuid sample_lib 3"
  unfolding reads_uuid_def sample_lib_def by code_simp+

lemma sample_reads_date: "reads_date sample_lib (Date 2020 5 10)"
  unfolding reads_date_def sample_lib_def by code_simp

lemma sample_owner_readable: "owner_text_readable sample_lib sample_owner"
  by (simp add: owner_text_readable_def sample_owner_def sample_reads_uuid
      sample_reads_datetime)

lemma sample_pet_readable: "pet_text_readable sample_lib sample_pet"
  by (simp add: pet_text_readable_def sample_pet_def sample_owner_readable sample_reads_uuid
      sample_reads_date sample_reads_datetime)

lemma sample_owner_validated: "validated_form sample_lib sample_owner"
  by (simp add: validated_form_def sample_owner_def address_filled_def validate_email_def
      sample_lib_def)

lemma lower_domain_sample: "lower_domain ''Ada@EXAMPLE.COM'' = ''Ada@example.com''"
  by code_simp

section \<open>Dumping a Read record and validating the dump\<close>

lemma optional_str_dump: "optional str_validator (dump_optional PStr x) = Inr x"
  by (cases x) (simp_all add: dump_optional_def)

lemma uuid_dump:
  "m = Json \<longrightarrow> reads_uuid L u \<Longrightarrow> uuid_validator L (dump_uuid L m u) = Inr u"
  by (cases m) (simp_all add: dump_uuid_def reads_uuid_def)

lemma datetime_dump:
  "m = Json \<longrightarrow> reads_datetime L t \<Longrightarrow> datetime_validator L (dump_datetime L m t) = Inr t"
  by (cases m) (simp_all add: dump_datetime_def reads_datetime_def)

lemma optional_date_dump:
  "m = Json \<longrightarrow> (case x of None \<Rightarrow> True | Some d \<Rightarrow> reads_date L d) \<Longrightarrow>
     optional (date_validator L) (dump_optional (dump_date L m) x) = Inr x"
  by (cases x; cases m) (simp_all add: dump_optional_def dump_date_def reads_date_def)

lemma factory_uuid_dump:
  assumes "map_of p k = Some (dump_uuid L m u)" and "m = Json \<longrightarrow> reads_uuid L u"
  shows "with_factory k (pure_validator (uuid_validator L)) uuid4 p e = (Inr u, e)"
  using assms by (simp add: with_factory_def pure_validator_def uuid_dump at_loc_Inr)

lemma factory_datetime_dump:
  assumes "map_of p k = Some (dump_datetime L m t)" and "m = Json \<longrightarrow> reads_datetime L t"
  shows "with_factory k (pure_validator (datetime_validator L)) utcnow p e = (Inr t, e)"
  using assms by (simp add: with_factory_def pure_validator_def datetime_dump at_loc_Inr)

lemma required_nonempty_dump:
  assumes "map_of p k = Some (PStr s)" and "s \<noteq> []"
  shows "required k nonempty_str_validator p = Inr s"
  using assms by (simp add: required_def at_loc_Inr)

lemma validate_AddressBase_dump:
  assumes "address_filled a" and "m = Json \<longrightarrow> reads_uuid L (address_id a)"
  shows "validate_AddressBase L (model_dump_AddressBase L m a) e = (Inr a, e)"
proof -
  have i: "with_factory ''id'' (pure_validator (uuid_validator L)) uuid4
             (model_dump_AddressBase L m a) e = (Inr (address_id a), e)"
    by (rule factory_uuid_dump [OF _ assms(2)]) (simp add: model_dump_AddressBase_def)
  have texts:
    "required ''street'' nonempty_str_validator (model_dump_AddressBase L m a)
       = Inr (street a)"
    "required ''city'' nonempty_str_validator (model_dump_AddressBase L m a) = Inr (city a)"
    "required ''postal_code'' nonempty_str_validator (model_dump_AddressBase L m a)
       = Inr (postal_code a)"
    "required ''country'' nonempty_str_validator (model_dump_AddressBase L m a)
       = Inr (country a)"
    using assms(1)
    by (simp_all add: required_nonempty_dump model_dump_AddressBase_def address_filled_def)
  have st: "with_default ''state'' (optional str_validator) None
              (model_dump_AddressBase L m a) = Inr (state a)"
    by (simp add: with_default_def model_dump_AddressBase_def at_loc_Inr optional_str_dump)
  show ?thesis
    by (simp add: validate_AddressBase_def i texts st ap_Inr_Inr make_AddressBase_def)
qed

lemma list_items_dump:
  assumes "list_all address_filled xs"
    and "m = Json \<longrightarrow> list_all (\<lambda>a. reads_uuid L (address_id a)) xs"
  shows "list_items (model_validator (validate_AddressBase L)) i
           (map (\<lambda>a. PDict (model_dump_AddressBase L m a)) xs) e = (Inr xs, e)"
  using assms
  by (induction xs arbitrary: i)
    (simp_all add: validate_AddressBase_dump at_loc_Inr ap_Inr_Inr)

lemma validate_OwnerRead_dump_email:
  assumes "validate_email L (email r) = Some s"
    and "list_all address_filled (addresses r)"
    and "m = Json \<longrightarrow> owner_text_readable L r"
  shows "validate_OwnerRead L (model_dump_OwnerRead L m r) e = (Inr (r\<lparr>email := s\<rparr>), e)"
proof -
  let ?p = "model_dump_OwnerRead L m r"
  have a: "with_factory ''addresses'' (addresses_validator L) new_list ?p e
             = (Inr (addresses r), e)"
    using assms(2,3)
    by (simp add: with_factory_def model_dump_OwnerRead_def addresses_validator_def
        list_items_dump owner_text_readable_def at_loc_Inr)
  have b: "validate_OwnerBase L ?p e
             = (Inr (make_OwnerBase (first_name r) (last_name r) s (phone r)
                      (government_id r) (addresses r)), e)"
    using assms(1)
    by (simp add: validate_OwnerBase_def a)
      (simp add: model_dump_OwnerRead_def required_def with_default_def at_loc_Inr
        ap_Inr_Inr optional_str_dump)
  have i: "with_factory ''id'' (pure_validator (uuid_validator L)) uuid4 ?p e
             = (Inr (or_id r), e)"
    using assms(3)
    by (intro factory_uuid_dump [where m = m])
      (simp_all add: model_dump_OwnerRead_def owner_text_readable_def)
  have c: "with_factory ''created_at'' (pure_validator (datetime_validator L)) utcnow ?p e
             = (Inr (or_created_at r), e)"
    using assms(3)
    by (intro factory_datetime_dump [where m = m])
      (simp_all add: model_dump_OwnerRead_def owner_text_readable_def)
  have u: "with_factory ''updated_at'' (pure_validator (datetime_validator L)) utcnow ?p e
             = (Inr (or_updated_at r), e)"
    using assms(3)
    by (intro factory_datetime_dump [where m = m])
      (simp_all add: model_dump_OwnerRead_def owner_text_readable_def)
  show ?thesis
    by (simp add: validate_OwnerRead_def b i c u ap_Inr_Inr make_OwnerRead_def
        make_OwnerBase_def)
qed

lemma validate_OwnerRead_dump:
  assumes "validated_form L r" and "m = Json \<longrightarrow> owner_text_readable L r"
  shows "validate_OwnerRead L (model_dump_OwnerRead L m r) e = (Inr r, e)"
  using validate_OwnerRead_dump_email [of L r "email r" m e] assms
  by (simp add: validated_form_def)

lemma validate_PetBase_dump:
  assumes "m = Json \<longrightarrow> (case birth_date r of None \<Rightarrow> True | Some d \<Rightarrow> reads_date L d)"
  shows "validate_PetBase L (model_dump_PetRead L m r) = Inr (PetBase.truncate r)"
  using assms
  by (simp add: validate_PetBase_def model_dump_PetRead_def required_def with_default_def
      at_loc_Inr ap_Inr_Inr optional_str_dump optional_date_dump make_PetBase_def
      PetBase.truncate_def)

lemma owner_field_dump:
  assumes "pet_validated_form L r"
    and "m = Json \<longrightarrow> (case owner r of None \<Rightarrow> True | Some ow \<Rightarrow> owner_text_readable L ow)"
  shows "with_factory ''owner'' (optional_st (model_validator (validate_OwnerRead L)))
           no_value (model_dump_PetRead L m r) e = (Inr (owner r), e)"
proof (cases "owner r")
  case None
  then show ?thesis
    by (simp add: with_factory_def model_dump_PetRead_def dump_optional_def at_loc_Inr)
next
  case (Some ow)
  with assms have "validate_OwnerRead L (model_dump_OwnerRead L m ow) e = (Inr ow, e)"
    by (simp add: validate_OwnerRead_dump pet_validated_form_def)
  with Some show ?thesis
    by (simp add: with_factory_def model_dump_PetRead_def dump_optional_def at_loc_Inr
        ap_Inr_Inr)
qed

lemma validate_PetRead_dump:
  assumes "pet_validated_form L q" and "m = Json \<longrightarrow> pet_text_readable L q"
  shows "validate_PetRead L (model_dump_PetRead L m q) e = (Inr q, e)"
proof -
  let ?p = "model_dump_PetRead L m q"
  have i: "with_factory ''id'' (pure_validator (uuid_validator L)) uuid4 ?p e
             = (Inr (pr_id q), e)"
    using assms(2)
    by (intro factory_uuid_dump [where m = m])
      (simp_all add: model_dump_PetRead_def pet_text_readable_def)
  have c: "with_factory ''created_at'' (pure_validator (datetime_validator L)) utcnow ?p e
             = (Inr (pr_created_at q), e)"
    using assms(2)
    by (intro factory_datetime_dump [where m = m])
      (simp_all add: model_dump_PetRead_def pet_text_readable_def)
  have u: "with_factory ''updated_at'' (pure_validator (datetime_validator L)) utcnow ?p e
             = (Inr (pr_updated_at q), e)"
    using assms(2)
    by (intro factory_datetime_dump [where m = m])
      (simp_all add: model_dump_PetRead_def pet_text_readable_def)
  have ow: "with_factory ''owner'' (optional_st (model_validator (validate_OwnerRead L)))
              no_value ?p e = (Inr (owner q), e)"
    using assms by (intro owner_field_dump) (simp_all add: pet_text_readable_def)
  have b: "validate_PetBase L ?p = Inr (PetBase.truncate q)"
    using assms(2) by (intro validate_PetBase_dump) (simp add: pet_text_readable_def)
  show ?thesis
    by (simp add: validate_PetRead_def i c u ow b ap_Inr_Inr make_PetRead_def
        PetBase.truncate_def)
qed

section \<open>What a validated record holds\<close>

lemma required_nonempty_Inr:
  assumes "required k nonempty_str_validator p = Inr s"
  shows "s \<noteq> []"
proof (cases "map_of p k")
  case None
  with assms show ?thesis by (simp add: required_def)
next
  case (Some x)
  with assms show ?thesis
    by (cases x) (auto simp: required_def at_loc_eq_Inr split: if_splits)
qed

lemma validate_AddressBase_filled:
  assumes "fst (validate_AddressBase L p e) = Inr a"
  shows "address_filled a"
proof -
  have "\<not> isl (fst (validate_AddressBase L p e))"
    using assms by simp
  then have
    "\<not> isl (fst (with_factory ''id'' (pure_validator (uuid_validator L)) uuid4 p e))"
    "\<not> isl (required ''street'' nonempty_str_validator p)"
    "\<not> isl (required ''city'' nonempty_str_validator p)"
    "\<not> isl (with_default ''state'' (optional str_validator) None p)"
    "\<not> isl (required ''postal_code'' nonempty_str_validator p)"
    "\<not> isl (required ''country'' nonempty_str_validator p)"
    by (simp_all add: validate_AddressBase_def split_beta isl_ap)
  then obtain i s c st pc co where eqs:
    "fst (with_factory ''id'' (pure_validator (uuid_validator L)) uuid4 p e) = Inr i"
    "required ''street'' nonempty_str_validator p = Inr s"
    "required ''city'' nonempty_str_validator p = Inr c"
    "with_default ''state'' (optional str_validator) None p = Inr st"
    "required ''postal_code'' nonempty_str_validator p = Inr pc"
    "required ''country'' nonempty_str_validator p = Inr co"
    by (meson not_isl_Inr)
  have "fst (validate_AddressBase L p e) = Inr (make_AddressBase i s c st pc co)"
    by (simp add: validate_AddressBase_def split_beta eqs ap_Inr_Inr)
  with assms have "a = make_AddressBase i s c st pc co"
    by simp
  then show ?thesis
    using eqs(2,3,5,6) [THEN required_nonempty_Inr]
    by (simp add: address_filled_def make_AddressBase_def)
qed

lemma ap_cons_Inr:
  "ap (ap (Inr (#)) r) rs = Inr ys \<longleftrightarrow> (\<exists>a as. r = Inr a \<and> rs = Inr as \<and> ys = a # as)"
  by (cases r; cases rs) (auto simp: ap_def)

lemma list_items_filled:
  assumes "fst (list_items (model_validator (validate_AddressBase L)) i xs e) = Inr ys"
  shows "list_all address_filled ys"
  using assms
proof (induction xs arbitrary: i e ys)
  case Nil
  then show ?case by simp
next
  case (Cons x xs)
  obtain r e1 where r: "model_validator (validate_AddressBase L) x e = (r, e1)"
    by (cases "model_validator (validate_AddressBase L) x e")
  obtain rs e2 where rs:
    "list_items (model_validator (validate_AddressBase L)) (Suc i) xs e1 = (rs, e2)"
    by (cases "list_items (model_validator (validate_AddressBase L)) (Suc i) xs e1")
  from Cons.prems r rs obtain a as where parts:
    "r = Inr a" "rs = Inr as" "ys = a # as"
    by (auto simp: ap_cons_Inr at_loc_eq_Inr)
  have "address_filled a"
  proof (cases x)
    case (PDict p)
    with r parts(1) have "fst (validate_AddressBase L p e) = Inr a"
      by simp
    then show ?thesis
      by (rule validate_AddressBase_filled)
  qed (use r parts(1) in simp_all)
  moreover have "list_all address_filled as"
    using Cons.IH [of "Suc i" e1 as] rs parts(2) by simp
  ultimately show ?case
    by (simp add: parts(3))
qed

lemma addresses_field_filled:
  assumes "fst (with_factory ''addresses'' (addresses_validator L) new_list p e) = Inr xs"
  shows "list_all address_filled xs"
proof (cases "map_of p ''addresses''")
  case None
  with assms show ?thesis
    by (simp add: with_factory_def new_list_def)
next
  case (Some x)
  show ?thesis
  proof (cases x)
    case (PList vs)
    with Some assms
    have "fst (list_items (model_validator (validate_AddressBase L)) 0 vs e) = Inr xs"
      by (simp add: with_factory_def addresses_validator_def split_beta at_loc_eq_Inr)
    then show ?thesis
      by (rule list_items_filled)
  qed (use Some assms in \<open>simp_all add: with_factory_def addresses_validator_def at_loc_def\<close>)
qed

lemma required_email_Inr:
  assumes "required ''email'' (email_validator L) p = Inr m"
  shows "\<exists>s. validate_email L s = Some m"
proof (cases "map_of p ''email''")
  case None
  with assms show ?thesis by (simp add: required_def)
next
  case (Some x)
  with assms show ?thesis
    by (cases x) (auto simp: required_def at_loc_eq_Inr split: option.splits)
qed

lemma validate_OwnerBase_validated_form:
  assumes "fst (validate_OwnerBase L p e) = Inr c" and "idempotent_email L"
  shows "validated_form L c"
proof -
  note parts = validate_OwnerBase_Inr [OF assms(1)]
  obtain s where "validate_email L s = Some (email c)"
    using required_email_Inr [OF parts(3)] by blast
  with assms(2) have "validate_email L (email c) = Some (email c)"
    unfolding idempotent_email_def by blast
  moreover have "list_all address_filled (addresses c)"
    using parts(6) by (rule addresses_field_filled)
  ultimately show ?thesis
    by (simp add: validated_form_def)
qed

lemma validate_OwnerRead_base:
  assumes "fst (validate_OwnerRead L p e) = Inr r"
  shows "\<exists>b. fst (validate_OwnerBase L p e) = Inr b \<and> email r = email b
           \<and> addresses r = addresses b"
proof -
  obtain rb e1 where b: "validate_OwnerBase L p e = (rb, e1)"
    by (cases "validate_OwnerBase L p e")
  obtain ri e2 where i:
    "with_factory ''id'' (pure_validator (uuid_validator L)) uuid4 p e1 = (ri, e2)"
    by (cases "with_factory ''id'' (pure_validator (uuid_validator L)) uuid4 p e1")
  obtain rc e3 where c:
    "with_factory ''created_at'' (pure_validator (datetime_validator L)) utcnow p e2
       = (rc, e3)"
    by (cases "with_factory ''created_at'' (pure_validator (datetime_validator L)) utcnow
                 p e2")
  obtain ru e4 where u:
    "with_factory ''updated_at'' (pure_validator (datetime_validator L)) utcnow p e3
       = (ru, e4)"
    by (cases "with_factory ''updated_at'' (pure_validator (datetime_validator L)) utcnow
                 p e3")
  have whole: "fst (validate_OwnerRead L p e)
                 = ap (ap (ap (ap (Inr make_OwnerRead) rb) ri) rc) ru"
    by (simp add: validate_OwnerRead_def b i c u)
  with assms have "\<not> isl rb" "\<not> isl ri" "\<not> isl rc" "\<not> isl ru"
    by (metis isl_ap sum.disc(2))+
  then obtain vb vi vc vu where v: "rb = Inr vb" "ri = Inr vi" "rc = Inr vc" "ru = Inr vu"
    by (meson not_isl_Inr)
  with whole assms have "r = make_OwnerRead vb vi vc vu"
    by (simp add: ap_Inr_Inr)
  then show ?thesis
    using b v(1) by (simp add: make_OwnerRead_def)
qed

lemma validate_OwnerRead_validated_form:
  assumes "fst (validate_OwnerRead L p e) = Inr r" and "idempotent_email L"
  shows "validated_form L r"
proof -
  obtain b where b: "fst (validate_OwnerBase L p e) = Inr b" "email r = email b"
    "addresses r = addresses b"
    using validate_OwnerRead_base [OF assms(1)] by blast
  have "validated_form L b"
    using b(1) assms(2) by (rule validate_OwnerBase_validated_form)
  then show ?thesis
    by (simp add: validated_form_def b(2,3))
qed

lemma owner_field_validated_form:
  assumes "fst (with_factory ''owner'' (optional_st (model_validator (validate_OwnerRead L)))
             no_value p e) = Inr ow"
    and "idempotent_email L"
  shows "case ow of None \<Rightarrow> True | Some r \<Rightarrow> validated_form L r"
proof (cases "map_of p ''owner''")
  case None
  with assms(1) show ?thesis
    by (simp add: with_factory_def no_value_def)
next
  case (Some x)
  show ?thesis
  proof (cases x)
    case PNone
    with Some assms(1) show ?thesis
      by (simp add: with_factory_def at_loc_eq_Inr)
  next
    case (PDict d)
    with Some assms(1)
    have "ap (Inr Some) (fst (validate_OwnerRead L d e)) = Inr ow"
      by (simp add: with_factory_def split_beta at_loc_eq_Inr)
    then obtain r where "fst (validate_OwnerRead L d e) = Inr r" "ow = Some r"
      by (auto simp: ap_eq_Inr)
    then show ?thesis
      using validate_OwnerRead_validated_form [OF _ assms(2)] by simp
  qed (use Some assms(1) in \<open>simp_all add: with_factory_def at_loc_def ap_def\<close>)
qed

lemma validate_PetRead_validated_form:
  assumes "fst (validate_PetRead L p e) = Inr q" and "idempotent_email L"
  shows "pet_validated_form L q"
proof -
  obtain ri e1 where i:
    "with_factory ''id'' (pure_validator (uuid_validator L)) uuid4 p e = (ri, e1)"
    by (cases "with_factory ''id'' (pure_validator (uuid_validator L)) uuid4 p e")
  obtain ro e2 where ow:
    "with_factory ''owner'' (optional_st (model_validator (validate_OwnerRead L)))
       no_value p e1 = (ro, e2)"
    by (cases "with_factory ''owner'' (optional_st (model_validator (validate_OwnerRead L)))
                 no_value p e1")
  obtain rc e3 where c:
    "with_factory ''created_at'' (pure_validator (datetime_validator L)) utcnow p e2
       = (rc, e3)"
    by (cases "with_factory ''created_at'' (pure_validator (datetime_validator L)) utcnow
                 p e2")
  obtain ru e4 where u:
    "with_factory ''updated_at'' (pure_validator (datetime_validator L)) utcnow p e3
       = (ru, e4)"
    by (cases "with_factory ''updated_at'' (pure_validator (datetime_validator L)) utcnow
                 p e3")
  have whole: "fst (validate_PetRead L p e)
      = ap (ap (ap (ap (ap (Inr make_PetRead) (validate_PetBase L p)) ri) ro) rc) ru"
    by (simp add: validate_PetRead_def i ow c u)
  with assms(1) have "\<not> isl (validate_PetBase L p)" "\<not> isl ri" "\<not> isl ro" "\<not> isl rc"
    "\<not> isl ru"
    by (metis isl_ap sum.disc(2))+
  then obtain vb vi vo vc vu where v: "validate_PetBase L p = Inr vb" "ri = Inr vi"
    "ro = Inr vo" "rc = Inr vc" "ru = Inr vu"
    by (meson not_isl_Inr)
  with whole assms(1) have "q = make_PetRead vb vi vo vc vu"
    by (simp add: ap_Inr_Inr)
  then have "owner q = vo"
    by (simp add: make_PetRead_def)
  moreover have "case vo of None \<Rightarrow> True | Some r \<Rightarrow> validated_form L r"
    using ow v(3) assms(2) by (intro owner_field_validated_form [of L p e1]) simp_all
  ultimately show ?thesis
    by (simp add: pet_validated_form_def)
qed

text \<open>
  C6, as stated, at an owner record whose email is not in the form validation gives it.
  With a library that puts the domain of an email in lower case, the dump of the record
  validates to a record with another email: the record does not come back.
\<close>

theorem read_roundtrip_counterexample:
  "validate_OwnerRead lowering_lib (model_dump_OwnerRead lowering_lib Python shouting_owner)
     sample_env = (Inr (shouting_owner\<lparr>email := ''Ada@example.com''\<rparr>), sample_env)
   \<and> shouting_owner\<lparr>email := ''Ada@example.com''\<rparr> \<noteq> shouting_owner"
proof -
  have "validate_email lowering_lib (email shouting_owner) = Some ''Ada@example.com''"
    by (simp add: shouting_owner_def sample_owner_def validate_email_def lowering_lib_def
        lower_domain_sample)
  moreover have "list_all address_filled (addresses shouting_owner)"
    by (simp add: shouting_owner_def sample_owner_def address_filled_def)
  ultimately have "validate_OwnerRead lowering_lib
      (model_dump_OwnerRead lowering_lib Python shouting_owner) sample_env
      = (Inr (shouting_owner\<lparr>email := ''Ada@example.com''\<rparr>), sample_env)"
    by (intro validate_OwnerRead_dump_email) simp_all
  moreover have "shouting_owner\<lparr>email := ''Ada@example.com''\<rparr> \<noteq> shouting_owner"
    by (simp add: shouting_owner_def sample_owner_def)
  ultimately show ?thesis
    by blast
qed

text \<open>
  C6, amended. A Read record in validated form (validating its email returns the email
  unchanged, and the required text of its addresses is non-empty; for a pet, its owner is
  in this form) comes back field for field when it is dumped and the dump is validated
  against the same schema, and nothing is generated. This holds for the dump in Python
  mode, and for the dump in JSON mode when the library reads back the text that it
  writes for the identifiers, the dates and the timestamps of the record. The records
  that validation returns are in validated form when the normalisation of emails is
  idempotent.
\<close>

theorem read_roundtrip:
  "(validated_form L r \<and> (m = Json \<longrightarrow> owner_text_readable L r) \<longrightarrow>
      validate_OwnerRead L (model_dump_OwnerRead L m r) e = (Inr r, e))
   \<and> (pet_validated_form L q \<and> (m = Json \<longrightarrow> pet_text_readable L q) \<longrightarrow>
      validate_PetRead L (model_dump_PetRead L m q) e = (Inr q, e))
   \<and> (idempotent_email L \<and> fst (validate_OwnerRead L p e) = Inr r' \<longrightarrow> validated_form L r')
   \<and> (idempotent_email L \<and> fst (validate_PetRead L p e) = Inr q' \<longrightarrow>
      pet_validated_form L q')"
  using validate_OwnerRead_dump [of L r m e] validate_PetRead_dump [of L q m e]
    validate_OwnerRead_validated_form [of L p e r']
    validate_PetRead_validated_form [of L p e q']
  by blast

lemma sample_lib_idempotent: "idempotent_email sample_lib"
  by (auto simp: idempotent_email_def validate_email_def sample_lib_def split: if_splits)

theorem read_roundtrip_witness:
  "validate_OwnerRead sample_lib (model_dump_OwnerRead sample_lib Json sample_owner)
     sample_env = (Inr sample_owner, sample_env)
   \<and> validate_PetRead sample_lib (model_dump_PetRead sample_lib Json sample_pet) sample_env
     = (Inr sample_pet, sample_env)
   \<and> validate_OwnerRead sample_lib (model_dump_OwnerRead sample_lib Python sample_owner)
     sample_env = (Inr sample_owner, sample_env)
   \<and> idempotent_email sample_lib"
proof -
  have p: "pet_validated_form sample_lib sample_pet"
    by (simp add: pet_validated_form_def sample_pet_def sample_owner_validated)
  show ?thesis
    using read_roundtrip [of sample_lib sample_owner Json sample_env sample_pet]
      read_roundtrip [of sample_lib sample_owner Python sample_env sample_pet]
      sample_owner_validated sample_owner_readable sample_pet_readable p
      sample_lib_idempotent
    by blast
qed

end
